theory Spec2Isabelle
  imports Complex_Main "HOL-Library.Code_Target_Numeral"
begin

section \<open>The Voronoi builder of voronoi\_claude\_web.ts\<close>

text \<open>
  The development embeds the TypeScript class \<^verbatim>\<open>Voronoi\<close> and the free function
  \<^verbatim>\<open>filterSimilarPoints\<close> of \<^verbatim>\<open>src/src/voronoi_claude_web.ts\<close>.

  Conventions of the embedding:
  \<^item> A JavaScript number is an IEEE 754 double, with \<^verbatim>\<open>NaN\<close>, the infinities, the
    signed zeros and the subnormal numbers; every operation rounds to the nearest double,
    ties to even (section Numbers).
  \<^item> Objects that the source mutates and shares (sites, vertices, edges, beach sections,
    circle events) live in heaps, functions from references to records; an object
    is named by its reference, and \<^verbatim>\<open>===\<close> on objects is equality of references.
  \<^item> \<^verbatim>\<open>null\<close> and \<^verbatim>\<open>undefined\<close> in a field are \<^term>\<open>None\<close>.
  \<^item> A function of the source that mutates the instance is a function from the state to
    a result and the new state. The result is \<^term>\<open>Inr v\<close> for a normal return of
    \<^term>\<open>v\<close> and \<^term>\<open>Inl e\<close> when the source throws; the state that comes with an
    \<^term>\<open>Inl\<close> is the state at the moment of the throw, since JavaScript does not
    undo mutations.
\<close>

subsection \<open>Errors\<close>

text \<open>
  \<^term>\<open>TypeError\<close> is what the JavaScript engine throws when a property of
  \<^verbatim>\<open>undefined\<close> or \<^verbatim>\<open>null\<close> is read or written, or when a value that is not a
  function is called. \<^term>\<open>Thrown\<close> carries the string of a \<^verbatim>\<open>throw '...'\<close>
  statement of the source.
\<close>

datatype error = TypeError | Thrown string


subsection \<open>Numbers\<close>

text \<open>
  A JavaScript number is an IEEE 754 double. \<open>Finite s m e\<close> is the value
  \<open>m * 2^e\<close>, negated when the sign bit \<open>s\<close> is set; the two zeros are
  \<open>Finite False 0 0\<close> and \<open>Finite True 0 0\<close>. A double is \<open>NaN\<close>, an infinity
  (\<open>Infinity True\<close> is \<^verbatim>\<open>-Infinity\<close>), a zero, or a finite value with an odd \<open>m\<close>
  below \<open>2^53\<close>, with \<open>-1074 \<le> e\<close> and \<open>m * 2^e < 2^1024\<close>. The arithmetic below
  returns doubles in this form, so that equal finite results are equal terms.
\<close>

datatype number = NaN | Infinity bool | Finite bool nat int

text \<open>The number of binary digits of a natural number.\<close>

fun bitlen :: "nat \<Rightarrow> nat" where
  "bitlen n = (if n = 0 then 0 else Suc (bitlen (n div 2)))"

declare bitlen.simps [simp del]

text \<open>The same value with an odd mantissa: \<open>m * 2^e\<close> without the trailing zero bits of \<open>m\<close>.\<close>

fun oddPart :: "nat \<Rightarrow> int \<Rightarrow> nat \<times> int" where
  "oddPart m e = (if m = 0 then (0, 0) else if even m then oddPart (m div 2) (e + 1) else (m, e))"

declare oddPart.simps [simp del]

text \<open>
  The double of the value \<open>m * 2^e\<close> once it fits in 53 bits: the infinity when it is
  \<open>2^1024\<close> or more.
\<close>

definition pack :: "bool \<Rightarrow> nat \<Rightarrow> int \<Rightarrow> number" where
  "pack s m e =
     (let (m', e') = oddPart m e
      in if 1024 < int (bitlen m') + e' then Infinity s else Finite s m' e')"

text \<open>
  Rounding to the nearest double, ties to the even mantissa, the one rounding mode of
  JavaScript. The exponent \<open>t\<close> of the last kept bit leaves 53 bits, or fewer in the
  subnormal range, where it is \<open>-1074\<close>.
\<close>

definition round53 :: "bool \<Rightarrow> nat \<Rightarrow> int \<Rightarrow> number" where
  "round53 s m e =
     (let t = max (int (bitlen m) + e - 53) (- 1074)
      in if t \<le> e then pack s m e
         else (let k = nat (t - e); q = m div 2 ^ k; r = m mod 2 ^ k; h = 2 ^ (k - 1)
               in pack s (if h < r \<or> (r = h \<and> odd q) then q + 1 else q) t))"

text \<open>
  Rounding of a value that lies strictly between \<open>m * 2^e\<close> and \<open>(m + 1) * 2^e\<close> when
  \<open>inexact\<close> holds; it is used with mantissas of 64 bits or more, where every value of
  that interval has the same rounding.
\<close>

definition roundSticky :: "bool \<Rightarrow> nat \<Rightarrow> int \<Rightarrow> bool \<Rightarrow> number" where
  "roundSticky s m e inexact = (if inexact then round53 s (2 * m + 1) (e - 1) else round53 s m e)"

text \<open>The signed integer \<open>m * 2^(e - e0)\<close>, for \<open>e0 \<le> e\<close>.\<close>

definition scaled :: "bool \<Rightarrow> nat \<Rightarrow> int \<Rightarrow> int \<Rightarrow> int" where
  "scaled s m e e0 = (if s then - int m else int m) * 2 ^ nat (e - e0)"

text \<open>
  \<^verbatim>\<open>a === b\<close> on numbers: \<^verbatim>\<open>NaN\<close> equals nothing, and the two zeros are equal.
  \<^verbatim>\<open>a !== b\<close> is its negation.
\<close>

fun eqn :: "number \<Rightarrow> number \<Rightarrow> bool" where
  "eqn (Infinity sa) (Infinity sb) = (sa = sb)"
| "eqn (Finite sa ma ea) (Finite sb mb eb) =
     (let e0 = min ea eb in scaled sa ma ea e0 = scaled sb mb eb e0)"
| "eqn a b = False"

text \<open>The integer square root, rounded down.\<close>

fun isqrt :: "nat \<Rightarrow> nat" where
  "isqrt n = (if n < 2 then n
              else (let r = 2 * isqrt (n div 4) in if (r + 1) * (r + 1) \<le> n then r + 1 else r))"

declare isqrt.simps [simp del]

text \<open>
  \<^verbatim>\<open>Math.sqrt\<close>, the correctly rounded square root: the root of the mantissa, scaled to
  128 bits or more at an even exponent, is rounded with its remainder as the inexact flag.
\<close>

fun sqrtn :: "number \<Rightarrow> number" where
  "sqrtn NaN = NaN"
| "sqrtn (Infinity s) = (if s then NaN else Infinity False)"
| "sqrtn (Finite s m e) =
     (if m = 0 then Finite s 0 0
      else if s then NaN
      else (let j = (if even e then 128 else 129); n = m * 2 ^ j; r = isqrt n
            in roundSticky False r ((e - int j) div 2) (r * r \<noteq> n)))"

text \<open>
  The operators of the source on numbers: \<^verbatim>\<open>-a\<close>, \<^verbatim>\<open>Math.abs(a)\<close>, \<^verbatim>\<open>a + b\<close>,
  \<^verbatim>\<open>a - b\<close>, \<^verbatim>\<open>a * b\<close>, \<^verbatim>\<open>a / b\<close>, \<^verbatim>\<open>a < b\<close> and \<^verbatim>\<open>a <= b\<close>; \<^verbatim>\<open>a > b\<close> and
  \<^verbatim>\<open>a >= b\<close> are \<open>b < a\<close> and \<open>b \<le> a\<close>. Sums, products and quotients are the
  exact results rounded once. Every comparison with \<^verbatim>\<open>NaN\<close> is false, so that \<open>a \<le> b\<close>
  is not the negation of \<open>b < a\<close>. The type has the notation of these operators and none
  of the laws of a field or of an order.
\<close>

instantiation number :: "{zero, one, plus, minus, uminus, times, inverse, abs, ord}"
begin

definition zero_number :: number where
  "zero_number = Finite False 0 0"

definition one_number :: number where
  "one_number = Finite False 1 0"

fun uminus_number :: "number \<Rightarrow> number" where
  "uminus_number NaN = NaN"
| "uminus_number (Infinity s) = Infinity (\<not> s)"
| "uminus_number (Finite s m e) = Finite (\<not> s) m e"

fun abs_number :: "number \<Rightarrow> number" where
  "abs_number NaN = NaN"
| "abs_number (Infinity s) = Infinity False"
| "abs_number (Finite s m e) = Finite False m e"

fun plus_number :: "number \<Rightarrow> number \<Rightarrow> number" where
  "plus_number (Finite sa ma ea) (Finite sb mb eb) =
     (let e0 = min ea eb; v = scaled sa ma ea e0 + scaled sb mb eb e0
      in if v = 0 then Finite (sa \<and> sb) 0 0 else round53 (v < 0) (nat \<bar>v\<bar>) e0)"
| "plus_number (Infinity sa) (Infinity sb) = (if sa = sb then Infinity sa else NaN)"
| "plus_number (Infinity sa) (Finite sb mb eb) = Infinity sa"
| "plus_number (Finite sa ma ea) (Infinity sb) = Infinity sb"
| "plus_number a b = NaN"

definition minus_number :: "number \<Rightarrow> number \<Rightarrow> number" where
  "minus_number a b = a + (- b)"

fun times_number :: "number \<Rightarrow> number \<Rightarrow> number" where
  "times_number (Finite sa ma ea) (Finite sb mb eb) = round53 (sa \<noteq> sb) (ma * mb) (ea + eb)"
| "times_number (Infinity sa) (Infinity sb) = Infinity (sa \<noteq> sb)"
| "times_number (Infinity sa) (Finite sb mb eb) = (if mb = 0 then NaN else Infinity (sa \<noteq> sb))"
| "times_number (Finite sa ma ea) (Infinity sb) = (if ma = 0 then NaN else Infinity (sa \<noteq> sb))"
| "times_number a b = NaN"

fun divide_number :: "number \<Rightarrow> number \<Rightarrow> number" where
  "divide_number (Finite sa ma ea) (Finite sb mb eb) =
     (if mb = 0 then (if ma = 0 then NaN else Infinity (sa \<noteq> sb))
      else (let k = 64 + bitlen mb; n = ma * 2 ^ k
            in roundSticky (sa \<noteq> sb) (n div mb) (ea - eb - int k) (n mod mb \<noteq> 0)))"
| "divide_number (Infinity sa) (Infinity sb) = NaN"
| "divide_number (Infinity sa) (Finite sb mb eb) = Infinity (sa \<noteq> sb)"
| "divide_number (Finite sa ma ea) (Infinity sb) = Finite (sa \<noteq> sb) 0 0"
| "divide_number a b = NaN"

definition inverse_number :: "number \<Rightarrow> number" where
  "inverse_number a = divide 1 a"

fun less_number :: "number \<Rightarrow> number \<Rightarrow> bool" where
  "less_number (Finite sa ma ea) (Finite sb mb eb) =
     (let e0 = min ea eb in scaled sa ma ea e0 < scaled sb mb eb e0)"
| "less_number (Infinity sa) (Infinity sb) = (sa \<and> \<not> sb)"
| "less_number (Infinity sa) (Finite sb mb eb) = sa"
| "less_number (Finite sa ma ea) (Infinity sb) = (\<not> sb)"
| "less_number a b = False"

definition less_eq_number :: "number \<Rightarrow> number \<Rightarrow> bool" where
  "less_eq_number a b \<longleftrightarrow> a < b \<or> eqn a b"

instance ..

end

text \<open>
  The literals of the source: an integer literal, and a decimal literal with the value
  \<open>p / q\<close>, which is the correctly rounded quotient when \<open>p\<close> and \<open>q\<close> are below
  \<open>2^53\<close> (\<^verbatim>\<open>1e-9\<close> is \<open>dbl 1 (10 ^ 9)\<close>).
\<close>

definition num :: "int \<Rightarrow> number" where
  "num i = round53 (i < 0) (nat \<bar>i\<bar>) 0"

definition dbl :: "int \<Rightarrow> int \<Rightarrow> number" where
  "dbl p q = num p / num q"

text \<open>\<^verbatim>\<open>Number.isFinite\<close>, and the truth value of a number in a condition.\<close>

fun isFinite :: "number \<Rightarrow> bool" where
  "isFinite (Finite s m e) = True"
| "isFinite a = False"

fun truthyNumber :: "number \<Rightarrow> bool" where
  "truthyNumber (Finite s m e) = (m \<noteq> 0)"
| "truthyNumber (Infinity s) = True"
| "truthyNumber NaN = False"

subsection \<open>filterSimilarPoints\<close>

record point =
  px :: number
  py :: number

text \<open>
  The test \<^verbatim>\<open>Math.abs(pt.x - nextPt.x) < threshold && Math.abs(pt.y - nextPt.y) < threshold\<close>,
  which the source writes out three times.
\<close>

definition withinThreshold :: "number \<Rightarrow> point \<Rightarrow> point \<Rightarrow> bool" where
  "withinThreshold threshold pt nextPt \<longleftrightarrow>
     \<bar>px pt - px nextPt\<bar> < threshold \<and> \<bar>py pt - py nextPt\<bar> < threshold"

text \<open>
  The first loop, \<^verbatim>\<open>for (let i = 0; i < points.length - 1; i++)\<close>, which collects the
  indexes \<^verbatim>\<open>i + 1\<close> of the points too close to their predecessor. For the empty list
  \<^verbatim>\<open>points.length - 1\<close> is \<open>-1\<close> and the loop does not run; the truncating
  subtraction on \<^typ>\<open>nat\<close> gives the same empty range.
\<close>

definition indexesTooCloseToPrevious :: "point list \<Rightarrow> number \<Rightarrow> nat set" where
  "indexesTooCloseToPrevious points threshold =
     fold (\<lambda>i acc. if withinThreshold threshold (points ! i) (points ! (i + 1))
                     then insert (i + 1) acc else acc)
          [0..<length points - 1] {}"

text \<open>
  \<^verbatim>\<open>points[0]\<close> of an empty array is \<^verbatim>\<open>undefined\<close>, and reading \<^verbatim>\<open>pt.x\<close>
  then throws a TypeError; the same holds for \<^verbatim>\<open>filteredPts[0]\<close> and \<^verbatim>\<open>pt2.x\<close>
  after the filter.
\<close>

definition filterSimilarPoints :: "point list \<Rightarrow> number \<Rightarrow> error + point list" where
  "filterSimilarPoints points threshold =
     (let idx = indexesTooCloseToPrevious points threshold in
      case points of
        [] \<Rightarrow> Inl TypeError
      | pt # _ \<Rightarrow>
          let nextPt = last points;
              idx' = (if withinThreshold threshold pt nextPt
                      then insert (length points - 1) idx else idx);
              filteredPts = map snd (filter (\<lambda>(i, p). i \<notin> idx') (enumerate 0 points))
          in (case filteredPts of
                [] \<Rightarrow> Inl TypeError
              | pt2 # _ \<Rightarrow>
                  let nextPt2 = last filteredPts
                  in if withinThreshold threshold pt2 nextPt2
                     then Inr (butlast filteredPts) else Inr filteredPts))"

text \<open>
  The behaviour as the specification words it: a point is removed when its predecessor is
  within the threshold in both axes, the last point also when the first point is; after
  that the new last point is dropped when it is within the threshold of the new first
  point.
\<close>

definition removedBySpec :: "number \<Rightarrow> point list \<Rightarrow> nat \<Rightarrow> bool" where
  "removedBySpec threshold points i \<longleftrightarrow>
     (0 < i \<and> withinThreshold threshold (points ! (i - 1)) (points ! i)) \<or>
     (i = length points - 1 \<and> withinThreshold threshold (points ! 0) (points ! i))"

definition filterSimilarPoints_spec :: "point list \<Rightarrow> number \<Rightarrow> point list" where
  "filterSimilarPoints_spec points threshold =
     (let kept = map (\<lambda>i. points ! i)
                     (filter (\<lambda>i. \<not> removedBySpec threshold points i) [0..<length points])
      in if kept \<noteq> [] \<and> withinThreshold threshold (hd kept) (last kept)
         then butlast kept else kept)"


subsection \<open>The data model\<close>

type_synonym ref = nat

record Site =
  sitex :: number
  sitey :: number
  voronoiId :: "nat option"

record BBox =
  xl :: number
  xr :: number
  yt :: number
  yb :: number

record Vertex =
  vx :: number
  vy :: number

text \<open>
  An edge refers to its sites and to its end points. \<^verbatim>\<open>rSite\<close> is \<^verbatim>\<open>null\<close> in a
  border edge; \<^verbatim>\<open>va\<close> and \<^verbatim>\<open>vb\<close> are \<^verbatim>\<open>null\<close> while the end is open.
\<close>

record Edge =
  lSite :: ref
  rSite :: "ref option"
  va :: "ref option"
  vb :: "ref option"

record Halfedge =
  he_site :: ref
  he_edge :: ref
  angle :: number

record Cell =
  cell_site :: ref
  halfedges :: "Halfedge list"
  closeMe :: bool

record Beachsection =
  bs_site :: ref
  bs_rbPrevious :: "ref option"
  bs_rbNext :: "ref option"
  circleEvent :: "ref option"
  bs_edge :: "ref option"

record CircleEvent =
  ce_arc :: "ref option"
  ce_site :: "ref option"
  ce_x :: number
  ce_y :: number
  ycenter :: number
  ce_rbPrevious :: "ref option"
  ce_rbNext :: "ref option"

text \<open>
  The result of \<^verbatim>\<open>compute\<close>. The field \<^verbatim>\<open>execTime\<close>, a difference of two readings of
  the wall clock, is left out.
\<close>

record Diagram =
  dcells :: "Cell list"
  dedges :: "ref list"
  dvertices :: "ref list"

text \<open>
  The shape of a red-black tree of the source, that is the \<^verbatim>\<open>rbLeft\<close> and \<^verbatim>\<open>rbRight\<close>
  fields of its nodes; \<^term>\<open>RBNull\<close> is \<^verbatim>\<open>null\<close>. The nodes are beach sections (in
  \<^verbatim>\<open>this.beachline\<close>) or circle events (in \<^verbatim>\<open>this.circleEvents\<close>); their other fields
  are in the heaps. An object built by \<^verbatim>\<open>new this.RBTree()\<close> has the one property
  \<^verbatim>\<open>root\<close>, so the model of such an object is the tree under its root.
\<close>

datatype rbtree = RBNull | RBNode rbtree ref rbtree

text \<open>
  The state: the fields of the \<^verbatim>\<open>Voronoi\<close> instance and the heaps of the objects they
  refer to. \<^verbatim>\<open>new Vertex\<close>, \<^verbatim>\<open>new Beachsection\<close> and \<^verbatim>\<open>new CircleEvent\<close> take the
  next unused reference of their heap. The fields \<^verbatim>\<open>vertices\<close>, \<^verbatim>\<open>edges\<close> and
  \<^verbatim>\<open>cells\<close> are \<^verbatim>\<open>null\<close> between the constructor and the first \<^verbatim>\<open>reset()\<close>, which
  \<^verbatim>\<open>compute\<close> calls first; the model describes the instance from then on and has the
  empty array for them before. \<^verbatim>\<open>this.beachline\<close> and \<^verbatim>\<open>this.circleEvents\<close> are
  \<^verbatim>\<open>undefined\<close> (here \<^term>\<open>None\<close>) until the first \<^verbatim>\<open>reset()\<close>. A cell object is held
  by one slot of one array, and the model keeps the cells by value.
\<close>

record voronoi =
  vertices :: "ref list"
  edges :: "ref list"
  cells :: "Cell list"
  toRecycle :: "Diagram option"
  beachsectionJunkyard :: "ref list"
  circleEventJunkyard :: "ref list"
  vertexJunkyard :: "ref list"
  edgeJunkyard :: "ref list"
  cellJunkyard :: "Cell list"
  beachline :: "rbtree option"
  circleEvents :: "rbtree option"
  firstCircleEvent :: "ref option"
  siteHeap :: "ref \<Rightarrow> Site"
  vertexHeap :: "ref \<Rightarrow> Vertex"
  vertexNext :: ref
  edgeHeap :: "ref \<Rightarrow> Edge"
  beachHeap :: "ref \<Rightarrow> Beachsection"
  beachNext :: ref
  circleHeap :: "ref \<Rightarrow> CircleEvent"
  circleNext :: ref

text \<open>The instance that the constructor builds, over given heaps.\<close>

definition newVoronoi :: "(ref \<Rightarrow> Site) \<Rightarrow> voronoi" where
  "newVoronoi sites =
     \<lparr>vertices = [], edges = [], cells = [], toRecycle = None,
      beachsectionJunkyard = [], circleEventJunkyard = [], vertexJunkyard = [],
      edgeJunkyard = [], cellJunkyard = [],
      beachline = None, circleEvents = None, firstCircleEvent = None,
      siteHeap = sites,
      vertexHeap = (\<lambda>_. \<lparr>vx = 0, vy = 0\<rparr>), vertexNext = 0,
      edgeHeap = (\<lambda>_. \<lparr>lSite = 0, rSite = None, va = None, vb = None\<rparr>),
      beachHeap = (\<lambda>_. \<lparr>bs_site = 0, bs_rbPrevious = None, bs_rbNext = None,
                           circleEvent = None, bs_edge = None\<rparr>),
      beachNext = 0,
      circleHeap = (\<lambda>_. \<lparr>ce_arc = None, ce_site = None, ce_x = 0, ce_y = 0, ycenter = 0,
                            ce_rbPrevious = None, ce_rbNext = None\<rparr>),
      circleNext = 0\<rparr>"

text \<open>A heap of sites at the origin without identifier, and the new instance over it.\<close>

definition noSites :: "ref \<Rightarrow> Site" where
  "noSites r = \<lparr>sitex = 0, sitey = 0, voronoiId = None\<rparr>"

definition freshVoronoi :: voronoi where
  "freshVoronoi = newVoronoi noSites"

subsection \<open>Calls of tree methods\<close>

text \<open>
  The source declares \<^verbatim>\<open>rbInsertSuccessor\<close>, \<^verbatim>\<open>rbRemoveNode\<close>, \<^verbatim>\<open>rbRotateLeft\<close>,
  \<^verbatim>\<open>rbRotateRight\<close>, \<^verbatim>\<open>getFirst\<close> and \<^verbatim>\<open>getLast\<close> as private methods of the class
  \<^verbatim>\<open>Voronoi\<close> (lines 157 to 447), but it calls them on the tree objects:
  \<^verbatim>\<open>this.beachline.rbInsertSuccessor(lArc, newArc)\<close>,
  \<^verbatim>\<open>this.circleEvents.rbInsertSuccessor(predecessor, circleEvent)\<close>,
  \<^verbatim>\<open>this.beachline.rbRemoveNode(beachsection)\<close>, \<^verbatim>\<open>this.circleEvents.rbRemoveNode(circle)\<close>,
  \<^verbatim>\<open>this.beachline.getFirst(this.beachline.root)\<close>. The tree objects are built by
  \<^verbatim>\<open>new this.RBTree()\<close>, where \<^verbatim>\<open>RBTree = function(this: any) { this.root = null; }\<close>;
  nothing is ever added to the prototype of that function. So the member read yields
  \<^verbatim>\<open>undefined\<close> and the call throws a TypeError, whatever the arguments are, and
  without changing the state. The argument names the member that the source calls.
\<close>

definition RBTree_call :: "string \<Rightarrow> voronoi \<Rightarrow> (error + unit) \<times> voronoi" where
  "RBTree_call method s = (Inl TypeError, s)"

subsection \<open>reset and recycle\<close>

text \<open>
  \<^verbatim>\<open>reset()\<close>. With a root, it calls \<^verbatim>\<open>this.beachline.getFirst\<close> before anything else
  is reset.
\<close>

definition reset :: "voronoi \<Rightarrow> (error + unit) \<times> voronoi" where
  "reset s =
     (let s1 = (case beachline s of None \<Rightarrow> s\<lparr>beachline := Some RBNull\<rparr> | Some _ \<Rightarrow> s)
      in case beachline s1 of
           Some (RBNode l n r) \<Rightarrow> RBTree_call ''getFirst'' s1
         | _ \<Rightarrow>
             (Inr (), s1\<lparr>beachline := Some RBNull, circleEvents := Some RBNull,
                          firstCircleEvent := None,
                          vertices := [], edges := [], cells := []\<rparr>))"

text \<open>
  The values that a caller can pass to \<^verbatim>\<open>recycle(diagram: any)\<close>. A
  \<^term>\<open>DiagramObject\<close> is an object built by \<^verbatim>\<open>new this.Diagram()\<close> of this instance,
  the only values for which \<^verbatim>\<open>diagram instanceof this.Diagram\<close> holds.
  \<^term>\<open>OtherObject\<close> is any other object.
\<close>

datatype jsvalue =
    Undefined | Null | Boolean bool | Number number | String string
  | DiagramObject Diagram | OtherObject

fun truthy :: "jsvalue \<Rightarrow> bool" where
  "truthy Undefined = False"
| "truthy Null = False"
| "truthy (Boolean b) = b"
| "truthy (Number r) = truthyNumber r"
| "truthy (String str) = (str \<noteq> [])"
| "truthy (DiagramObject d) = True"
| "truthy OtherObject = True"

definition recycle :: "jsvalue \<Rightarrow> voronoi \<Rightarrow> (error + unit) \<times> voronoi" where
  "recycle diagram s =
     (if truthy diagram then
        (case diagram of
           DiagramObject d \<Rightarrow> (Inr (), s\<lparr>toRecycle := Some d\<rparr>)
         | _ \<Rightarrow> (Inl (Thrown ''Voronoi.recycleDiagram() > Need a Diagram object.''), s))
      else (Inr (), s))"

subsection \<open>Vertices\<close>

text \<open>
  \<^verbatim>\<open>createVertex(x, y)\<close> takes the last vertex of the junkyard and overwrites its
  coordinates, or allocates a vertex when the junkyard is empty, and pushes the vertex on
  \<^verbatim>\<open>this.vertices\<close>. These two assignments are the only writes to the coordinates of a
  vertex in the source.
\<close>

definition createVertex :: "number \<Rightarrow> number \<Rightarrow> voronoi \<Rightarrow> ref \<times> voronoi" where
  "createVertex x y s =
     (case vertexJunkyard s of
        [] \<Rightarrow>
          (let v = vertexNext s
           in (v, s\<lparr>vertexHeap := (vertexHeap s)(v := \<lparr>vx = x, vy = y\<rparr>),
                    vertexNext := Suc v,
                    vertices := vertices s @ [v]\<rparr>))
      | _ # _ \<Rightarrow>
          (let v = last (vertexJunkyard s)
           in (v, s\<lparr>vertexJunkyard := butlast (vertexJunkyard s),
                    vertexHeap := (vertexHeap s)(v := \<lparr>vx = x, vy = y\<rparr>),
                    vertices := vertices s @ [v]\<rparr>)))"

text \<open>
  \<^verbatim>\<open>this.cells[site.voronoiId].closeMe = true\<close>. Without an identifier, or with one
  that is no index of \<^verbatim>\<open>this.cells\<close>, the array read yields \<^verbatim>\<open>undefined\<close> and the
  assignment throws.
\<close>

definition setCloseMe :: "nat option \<Rightarrow> voronoi \<Rightarrow> (error + unit) \<times> voronoi" where
  "setCloseMe ident s =
     (case ident of
        None \<Rightarrow> (Inl TypeError, s)
      | Some i \<Rightarrow>
          if i < length (cells s)
          then (Inr (), s\<lparr>cells := (cells s)[i := (cells s ! i)\<lparr>closeMe := True\<rparr>]\<rparr>)
          else (Inl TypeError, s))"

subsection \<open>connectEdge\<close>

text \<open>
  What \<^verbatim>\<open>connectEdge\<close> decides from the coordinates alone: to give up
  (\<^verbatim>\<open>return false\<close>), or to end the edge at a point of the box, with or without a new
  start point.
\<close>

datatype connectPlan = Reject | Connect "(number \<times> number) option" "number \<times> number"

text \<open>
  The six branches of \<^verbatim>\<open>connectEdge\<close> have one shape,
  \<^verbatim>\<open>if (!va || outside(va)) { va = createVertex(start) } else if (beyond(va)) { return false; } vb = createVertex(end)\<close>,
  with their own tests and points.
\<close>

definition viaSide ::
  "Vertex option \<Rightarrow> (Vertex \<Rightarrow> bool) \<Rightarrow> (Vertex \<Rightarrow> bool) \<Rightarrow> number \<times> number
     \<Rightarrow> number \<times> number \<Rightarrow> connectPlan" where
  "viaSide start outside beyond p q =
     (case start of
        None \<Rightarrow> Connect (Some p) q
      | Some v \<Rightarrow>
          if outside v then Connect (Some p) q
          else if beyond v then Reject
          else Connect None q)"

text \<open>
  The bisector of the two sites: \<^verbatim>\<open>fm\<close> stays \<^verbatim>\<open>undefined\<close> when \<^verbatim>\<open>ry !== ly\<close>
  fails, and \<^verbatim>\<open>fm === undefined\<close> selects the first branch. The branches are in the order
  of the source: vertical line, closer to vertical than horizontal, closer to horizontal
  than vertical.
\<close>

definition connectGeometry :: "BBox \<Rightarrow> Site \<Rightarrow> Site \<Rightarrow> Vertex option \<Rightarrow> connectPlan" where
  "connectGeometry bbox l r start =
     (let lx = sitex l; ly = sitey l; rx = sitex r; ry = sitey r;
          fx = (lx + rx) / num 2; fy = (ly + ry) / num 2
      in if eqn ry ly then
           (if fx < xl bbox \<or> fx \<ge> xr bbox then Reject
            else if lx > rx
            then viaSide start (\<lambda>v. vy v < yt bbox) (\<lambda>v. vy v \<ge> yb bbox)
                   (fx, yt bbox) (fx, yb bbox)
            else viaSide start (\<lambda>v. vy v > yb bbox) (\<lambda>v. vy v < yt bbox)
                   (fx, yb bbox) (fx, yt bbox))
         else
           (let fm = (lx - rx) / (ry - ly); fb = fy - fm * fx
            in if fm < - 1 \<or> fm > 1 then
                 (if lx > rx
                  then viaSide start (\<lambda>v. vy v < yt bbox) (\<lambda>v. vy v \<ge> yb bbox)
                         ((yt bbox - fb) / fm, yt bbox) ((yb bbox - fb) / fm, yb bbox)
                  else viaSide start (\<lambda>v. vy v > yb bbox) (\<lambda>v. vy v < yt bbox)
                         ((yb bbox - fb) / fm, yb bbox) ((yt bbox - fb) / fm, yt bbox))
               else
                 (if ly < ry
                  then viaSide start (\<lambda>v. vx v < xl bbox) (\<lambda>v. vx v \<ge> xr bbox)
                         (xl bbox, fm * xl bbox + fb) (xr bbox, fm * xr bbox + fb)
                  else viaSide start (\<lambda>v. vx v > xr bbox) (\<lambda>v. vx v < xl bbox)
                         (xr bbox, fm * xr bbox + fb) (xl bbox, fm * xl bbox + fb))))"

text \<open>
  The end of \<^verbatim>\<open>connectEdge\<close> on the paths that connect: the start vertex is created
  if the plan has one (otherwise the local \<^verbatim>\<open>va\<close> is still \<^verbatim>\<open>edge.va\<close>), then the end
  vertex, then \<^verbatim>\<open>edge.va = va; edge.vb = vb;\<close>.
\<close>

definition endAt :: "ref \<Rightarrow> (number \<times> number) option \<Rightarrow> number \<times> number \<Rightarrow> voronoi \<Rightarrow> voronoi" where
  "endAt edge start stop s =
     (let (va', s3) =
            (case start of
               None \<Rightarrow> (va (edgeHeap s edge), s)
             | Some (x, y) \<Rightarrow> (let (v, s') = createVertex x y s in (Some v, s')));
          (vb', s4) = createVertex (fst stop) (snd stop) s3
      in s4\<lparr>edgeHeap := (edgeHeap s4)
            (edge := (edgeHeap s4 edge)\<lparr>va := va', vb := Some vb'\<rparr>)\<rparr>)"

text \<open>
  \<^verbatim>\<open>connectEdge(edge, bbox)\<close>. With \<^verbatim>\<open>vb\<close> set it returns at once. Otherwise it reads
  the coordinates of both sites (a TypeError for the \<^verbatim>\<open>null\<close> right site of a border
  edge), marks both cells, and follows the plan: no vertex is created on the paths that
  return \<^verbatim>\<open>false\<close>, and the start vertex is created before the end vertex.
\<close>

definition connectEdge :: "ref \<Rightarrow> BBox \<Rightarrow> voronoi \<Rightarrow> (error + bool) \<times> voronoi" where
  "connectEdge edge bbox s =
     (case vb (edgeHeap s edge) of
        Some _ \<Rightarrow> (Inr True, s)
      | None \<Rightarrow>
          (case rSite (edgeHeap s edge) of
             None \<Rightarrow> (Inl TypeError, s)
           | Some rs \<Rightarrow>
               (let l = siteHeap s (lSite (edgeHeap s edge)); r = siteHeap s rs
                in case setCloseMe (voronoiId l) s of
                     (Inl e, s1) \<Rightarrow> (Inl e, s1)
                   | (Inr _, s1) \<Rightarrow>
                       (case setCloseMe (voronoiId r) s1 of
                          (Inl e, s2) \<Rightarrow> (Inl e, s2)
                        | (Inr _, s2) \<Rightarrow>
                            (case connectGeometry bbox l r
                                    (map_option (vertexHeap s) (va (edgeHeap s edge))) of
                               Reject \<Rightarrow> (Inr False, s2)
                             | Connect start stop \<Rightarrow>
                                 (Inr True, endAt edge start stop s2))))))"

subsection \<open>clipEdge\<close>

text \<open>
  One side of the Liang-Barsky clip. For the left and the top side the source computes
  \<^verbatim>\<open>r = -q / d\<close>; a negative direction can only lower \<^verbatim>\<open>t1\<close> and a positive one
  only raise \<^verbatim>\<open>t0\<close>. The result \<^term>\<open>None\<close> is \<^verbatim>\<open>return false\<close>. With
  \<^verbatim>\<open>d === 0\<close> the quotient is not used.
\<close>

definition clipLow :: "number \<Rightarrow> number \<Rightarrow> number \<times> number \<Rightarrow> (number \<times> number) option" where
  "clipLow q d t =
     (let t0 = fst t; t1 = snd t
      in if eqn d 0 \<and> q < 0 then None
         else (let r = - q / d
               in if d < 0 then
                    (if r < t0 then None else Some (t0, if r < t1 then r else t1))
                  else if d > 0 then
                    (if r > t1 then None else Some (if r > t0 then r else t0, t1))
                  else Some (t0, t1)))"

text \<open>
  For the right and the bottom side, \<^verbatim>\<open>r = q / d\<close>, and the roles of the two directions
  are exchanged.
\<close>

definition clipHigh :: "number \<Rightarrow> number \<Rightarrow> number \<times> number \<Rightarrow> (number \<times> number) option" where
  "clipHigh q d t =
     (let t0 = fst t; t1 = snd t
      in if eqn d 0 \<and> q < 0 then None
         else (let r = q / d
               in if d < 0 then
                    (if r > t1 then None else Some (if r > t0 then r else t0, t1))
                  else if d > 0 then
                    (if r < t0 then None else Some (t0, if r < t1 then r else t1))
                  else Some (t0, t1)))"

text \<open>The four sides in the order of the source: left, right, top, bottom.\<close>

definition clipParams :: "BBox \<Rightarrow> Vertex \<Rightarrow> Vertex \<Rightarrow> (number \<times> number) option" where
  "clipParams bbox a b =
     (let ax = vx a; ay = vy a; dx = vx b - ax; dy = vy b - ay
      in case clipLow (ax - xl bbox) dx (0, 1) of
           None \<Rightarrow> None
         | Some t \<Rightarrow>
             (case clipHigh (xr bbox - ax) dx t of
                None \<Rightarrow> None
              | Some t \<Rightarrow>
                  (case clipLow (ay - yt bbox) dy t of
                     None \<Rightarrow> None
                   | Some t \<Rightarrow> clipHigh (yb bbox - ay) dy t)))"

text \<open>
  The two assignments at the end of \<^verbatim>\<open>clipEdge\<close>,
  \<^verbatim>\<open>this.cells[edge.lSite.voronoiId].closeMe = true\<close> and the same for
  \<^verbatim>\<open>edge.rSite\<close>; reading \<^verbatim>\<open>edge.rSite.voronoiId\<close> throws for a border edge.
\<close>

definition markCells :: "ref \<Rightarrow> voronoi \<Rightarrow> (error + unit) \<times> voronoi" where
  "markCells edge s =
     (case setCloseMe (voronoiId (siteHeap s (lSite (edgeHeap s edge)))) s of
        (Inl e, s1) \<Rightarrow> (Inl e, s1)
      | (Inr _, s1) \<Rightarrow>
          (case rSite (edgeHeap s1 edge) of
             None \<Rightarrow> (Inl TypeError, s1)
           | Some rs \<Rightarrow> setCloseMe (voronoiId (siteHeap s1 rs)) s1))"

text \<open>
  \<^verbatim>\<open>clipEdge(edge, bbox)\<close>. Reading \<^verbatim>\<open>edge.va.x\<close> or \<^verbatim>\<open>edge.vb.x\<close> of an open end
  throws. An end point that the clip moves is replaced by a vertex from
  \<^term>\<open>createVertex\<close>; then both cells are marked.
\<close>

definition clipEdge :: "ref \<Rightarrow> BBox \<Rightarrow> voronoi \<Rightarrow> (error + bool) \<times> voronoi" where
  "clipEdge edge bbox s =
     (case (va (edgeHeap s edge), vb (edgeHeap s edge)) of
        (Some a, Some b) \<Rightarrow>
          (let ax = vx (vertexHeap s a); ay = vy (vertexHeap s a);
               dx = vx (vertexHeap s b) - ax; dy = vy (vertexHeap s b) - ay
           in case clipParams bbox (vertexHeap s a) (vertexHeap s b) of
                None \<Rightarrow> (Inr False, s)
              | Some (t0, t1) \<Rightarrow>
                  (let s1 = (if t0 > 0 then
                               (let (v, s') = createVertex (ax + t0 * dx) (ay + t0 * dy) s
                                in s'\<lparr>edgeHeap := (edgeHeap s')
                                        (edge := (edgeHeap s' edge)\<lparr>va := Some v\<rparr>)\<rparr>)
                             else s);
                       s2 = (if t1 < 1 then
                               (let (v, s') = createVertex (ax + t1 * dx) (ay + t1 * dy) s1
                                in s'\<lparr>edgeHeap := (edgeHeap s')
                                        (edge := (edgeHeap s' edge)\<lparr>vb := Some v\<rparr>)\<rparr>)
                             else s1)
                   in if t0 > 0 \<or> t1 < 1 then
                        (case markCells edge s2 of
                           (Inl e, s3) \<Rightarrow> (Inl e, s3)
                         | (Inr _, s3) \<Rightarrow> (Inr True, s3))
                      else (Inr True, s2)))
      | _ \<Rightarrow> (Inl TypeError, s))"

subsection \<open>clipEdges\<close>

text \<open>
  The test \<^verbatim>\<open>Math.abs(edge.va.x - edge.vb.x) < 1e-9 && Math.abs(edge.va.y - edge.vb.y) < 1e-9\<close>
  on the end points that the edge has after \<^verbatim>\<open>clipEdge\<close>.
\<close>

definition pointLike :: "ref \<Rightarrow> voronoi \<Rightarrow> error + bool" where
  "pointLike edge s =
     (case (va (edgeHeap s edge), vb (edgeHeap s edge)) of
        (Some a, Some b) \<Rightarrow>
          Inr (\<bar>vx (vertexHeap s a) - vx (vertexHeap s b)\<bar> < dbl 1 (10 ^ 9) \<and>
               \<bar>vy (vertexHeap s a) - vy (vertexHeap s b)\<bar> < dbl 1 (10 ^ 9))
      | _ \<Rightarrow> Inl TypeError)"

text \<open>
  The condition of the \<^verbatim>\<open>if\<close> in the loop of \<^verbatim>\<open>clipEdges\<close>, with the short circuit
  of \<^verbatim>\<open>||\<close>: \<^term>\<open>Inr True\<close> when the edge is to be removed.
\<close>

definition edgeToRemove :: "ref \<Rightarrow> BBox \<Rightarrow> voronoi \<Rightarrow> (error + bool) \<times> voronoi" where
  "edgeToRemove edge bbox s =
     (case connectEdge edge bbox s of
        (Inl e, s1) \<Rightarrow> (Inl e, s1)
      | (Inr False, s1) \<Rightarrow> (Inr True, s1)
      | (Inr True, s1) \<Rightarrow>
          (case clipEdge edge bbox s1 of
             (Inl e, s2) \<Rightarrow> (Inl e, s2)
           | (Inr False, s2) \<Rightarrow> (Inr True, s2)
           | (Inr True, s2) \<Rightarrow>
               (case pointLike edge s2 of
                  Inl e \<Rightarrow> (Inl e, s2)
                | Inr p \<Rightarrow> (Inr p, s2))))"

text \<open>
  \<^verbatim>\<open>edge.va = edge.vb = null; edges.splice(iEdge, 1);\<close>
\<close>

definition removeEdgeAt :: "nat \<Rightarrow> voronoi \<Rightarrow> voronoi" where
  "removeEdgeAt i s =
     (let edge = edges s ! i
      in s\<lparr>edgeHeap := (edgeHeap s)(edge := (edgeHeap s edge)\<lparr>va := None, vb := None\<rparr>),
            edges := take i (edges s) @ drop (Suc i) (edges s)\<rparr>)"

text \<open>
  The loop \<^verbatim>\<open>while (iEdge--)\<close>: the first argument is the value of \<^verbatim>\<open>iEdge\<close> before
  the test. The index stays below the length of the array, since an iteration removes no
  edge at a smaller index; an index outside the array would read \<^verbatim>\<open>undefined\<close> and
  throw in \<^verbatim>\<open>connectEdge\<close>.
\<close>

fun clipEdgesFrom :: "nat \<Rightarrow> BBox \<Rightarrow> voronoi \<Rightarrow> (error + unit) \<times> voronoi" where
  "clipEdgesFrom 0 bbox s = (Inr (), s)"
| "clipEdgesFrom (Suc i) bbox s =
     (if i < length (edges s) then
        (case edgeToRemove (edges s ! i) bbox s of
           (Inl e, s1) \<Rightarrow> (Inl e, s1)
         | (Inr True, s1) \<Rightarrow> clipEdgesFrom i bbox (removeEdgeAt i s1)
         | (Inr False, s1) \<Rightarrow> clipEdgesFrom i bbox s1)
      else (Inl TypeError, s))"

definition clipEdges :: "BBox \<Rightarrow> voronoi \<Rightarrow> (error + unit) \<times> voronoi" where
  "clipEdges bbox s = clipEdgesFrom (length (edges s)) bbox s"

subsection \<open>Cells and beach sections\<close>

text \<open>
  \<^verbatim>\<open>createCell(site)\<close> takes a cell from the junkyard and initialises it, or builds a
  new one; both give a cell of the site with no halfedges and \<^verbatim>\<open>closeMe\<close> false.
\<close>

definition createCell :: "ref \<Rightarrow> voronoi \<Rightarrow> Cell \<times> voronoi" where
  "createCell site s =
     (\<lparr>cell_site = site, halfedges = [], closeMe = False\<rparr>,
      s\<lparr>cellJunkyard := butlast (cellJunkyard s)\<rparr>)"

text \<open>
  \<^verbatim>\<open>createBeachsection(site)\<close>: a recycled beach section keeps its other fields, a new
  one has none.
\<close>

definition createBeachsection :: "ref \<Rightarrow> voronoi \<Rightarrow> ref \<times> voronoi" where
  "createBeachsection site s =
     (case beachsectionJunkyard s of
        [] \<Rightarrow>
          (let b = beachNext s
           in (b, s\<lparr>beachHeap := (beachHeap s)
                      (b := \<lparr>bs_site = site, bs_rbPrevious = None, bs_rbNext = None,
                             circleEvent = None, bs_edge = None\<rparr>),
                    beachNext := Suc b\<rparr>))
      | _ # _ \<Rightarrow>
          (let b = last (beachsectionJunkyard s)
           in (b, s\<lparr>beachsectionJunkyard := butlast (beachsectionJunkyard s),
                    beachHeap := (beachHeap s)(b := (beachHeap s b)\<lparr>bs_site := site\<rparr>)\<rparr>)))"

text \<open>
  \<^verbatim>\<open>leftBreakPoint(arc, directrix)\<close> and \<^verbatim>\<open>rightBreakPoint(arc, directrix)\<close>. The
  tests \<^verbatim>\<open>!pby2\<close>, \<^verbatim>\<open>!plby2\<close> and \<^verbatim>\<open>aby2\<close> are tests of the truth value of a
  number; the first and the last arc give \<^verbatim>\<open>-Infinity\<close> and \<^verbatim>\<open>Infinity\<close>.
\<close>

definition leftBreakPoint :: "voronoi \<Rightarrow> ref \<Rightarrow> number \<Rightarrow> number" where
  "leftBreakPoint s arc directrix =
     (let site = siteHeap s (bs_site (beachHeap s arc));
          rfocx = sitex site; rfocy = sitey site; pby2 = rfocy - directrix
      in if \<not> truthyNumber pby2 then rfocx
         else (case bs_rbPrevious (beachHeap s arc) of
                 None \<Rightarrow> Infinity True
               | Some lArc \<Rightarrow>
                   (let lsite = siteHeap s (bs_site (beachHeap s lArc));
                        lfocx = sitex lsite; lfocy = sitey lsite; plby2 = lfocy - directrix
                    in if \<not> truthyNumber plby2 then lfocx
                       else (let hl = lfocx - rfocx; aby2 = 1 / pby2 - 1 / plby2;
                                 b = hl / plby2
                             in if truthyNumber aby2 then
                                  (- b + sqrtn (b * b - num 2 * aby2 *
                                     (hl * hl / (- num 2 * plby2) - lfocy + plby2 / num 2
                                        + rfocy - pby2 / num 2)))
                                     / aby2 + rfocx
                                else (rfocx + lfocx) / num 2))))"

definition rightBreakPoint :: "voronoi \<Rightarrow> ref \<Rightarrow> number \<Rightarrow> number" where
  "rightBreakPoint s arc directrix =
     (case bs_rbNext (beachHeap s arc) of
        Some rArc \<Rightarrow> leftBreakPoint s rArc directrix
      | None \<Rightarrow>
          (let site = siteHeap s (bs_site (beachHeap s arc))
           in if eqn (sitey site) directrix then sitex site else Infinity False))"

text \<open>
  The descent of \<^verbatim>\<open>addBeachsection\<close> from the root, which finds \<^verbatim>\<open>lArc\<close> and
  \<^verbatim>\<open>rArc\<close>; both stay \<^verbatim>\<open>undefined\<close> when the loop ends at \<^verbatim>\<open>null\<close>. The tests are
  \<^verbatim>\<open>dxl > 1e-9\<close>, \<^verbatim>\<open>dxr > 1e-9\<close>, \<^verbatim>\<open>dxl > -1e-9\<close> and \<^verbatim>\<open>dxr > -1e-9\<close>.
\<close>

fun findArcs :: "voronoi \<Rightarrow> number \<Rightarrow> number \<Rightarrow> rbtree \<Rightarrow> ref option \<times> ref option" where
  "findArcs s x directrix RBNull = (None, None)"
| "findArcs s x directrix (RBNode l node r) =
     (let dxl = leftBreakPoint s node directrix - x
      in if dbl 1 (10 ^ 9) < dxl then findArcs s x directrix l
         else (let dxr = x - rightBreakPoint s node directrix
               in if dbl 1 (10 ^ 9) < dxr
                  then (if r = RBNull then (Some node, None) else findArcs s x directrix r)
                  else if - dbl 1 (10 ^ 9) < dxl
                  then (bs_rbPrevious (beachHeap s node), Some node)
                  else if - dbl 1 (10 ^ 9) < dxr
                  then (Some node, bs_rbNext (beachHeap s node))
                  else (Some node, Some node)))"

text \<open>
  \<^verbatim>\<open>addBeachsection(site)\<close> up to the call
  \<^verbatim>\<open>this.beachline.rbInsertSuccessor(lArc, newArc)\<close>, which throws on every path (see
  \<^term>\<open>RBTree_call\<close>); the statements after the call are never reached. Reading
  \<^verbatim>\<open>this.beachline.root\<close> throws when there is no tree object yet.
\<close>

definition addBeachsection :: "ref \<Rightarrow> voronoi \<Rightarrow> (error + unit) \<times> voronoi" where
  "addBeachsection site s =
     (case beachline s of
        None \<Rightarrow> (Inl TypeError, s)
      | Some tree \<Rightarrow>
          (let (lArc, rArc) = findArcs s (sitex (siteHeap s site)) (sitey (siteHeap s site)) tree;
               (newArc, s1) = createBeachsection site s
           in RBTree_call ''rbInsertSuccessor'' s1))"

subsection \<open>Circle events\<close>

text \<open>
  The descent of \<^verbatim>\<open>attachCircleEvent\<close> through the tree of circle events, which finds
  the predecessor of the new event.
\<close>

fun findPredecessor :: "(ref \<Rightarrow> CircleEvent) \<Rightarrow> number \<Rightarrow> number \<Rightarrow> rbtree \<Rightarrow> ref option" where
  "findPredecessor h y x RBNull = None"
| "findPredecessor h y x (RBNode l node r) =
     (if y < ce_y (h node) \<or> (eqn y (ce_y (h node)) \<and> x \<le> ce_x (h node))
      then (if l \<noteq> RBNull then findPredecessor h y x l else ce_rbPrevious (h node))
      else (if r \<noteq> RBNull then findPredecessor h y x r else Some node))"

text \<open>
  \<^verbatim>\<open>this.circleEventJunkyard.pop()\<close>, or \<^verbatim>\<open>new this.CircleEvent()\<close> when the junkyard
  is empty.
\<close>

definition takeCircleEvent :: "voronoi \<Rightarrow> ref \<times> voronoi" where
  "takeCircleEvent s =
     (case circleEventJunkyard s of
        [] \<Rightarrow>
          (let c = circleNext s
           in (c, s\<lparr>circleHeap := (circleHeap s)
                      (c := \<lparr>ce_arc = None, ce_site = None, ce_x = 0, ce_y = 0, ycenter = 0,
                             ce_rbPrevious = None, ce_rbNext = None\<rparr>),
                    circleNext := Suc c\<rparr>))
      | _ # _ \<Rightarrow>
          (last (circleEventJunkyard s),
           s\<lparr>circleEventJunkyard := butlast (circleEventJunkyard s)\<rparr>))"

text \<open>
  \<^verbatim>\<open>attachCircleEvent(arc)\<close>. The three early returns are those of the source; the
  third is \<^verbatim>\<open>if (d >= -2e-12) { return; }\<close>, which does not return for a \<^verbatim>\<open>NaN\<close>. After
  them the event is taken, filled in and stored in \<^verbatim>\<open>arc.circleEvent\<close>; the source then
  looks for the predecessor and calls \<^verbatim>\<open>this.circleEvents.rbInsertSuccessor\<close>, which
  throws (see \<^term>\<open>RBTree_call\<close>), so that \<^verbatim>\<open>this.firstCircleEvent\<close> is never assigned.
\<close>

definition attachCircleEvent :: "ref \<Rightarrow> voronoi \<Rightarrow> (error + unit) \<times> voronoi" where
  "attachCircleEvent arc s =
     (case (bs_rbPrevious (beachHeap s arc), bs_rbNext (beachHeap s arc)) of
        (Some lArc, Some rArc) \<Rightarrow>
          (let lSite = bs_site (beachHeap s lArc);
               cSite = bs_site (beachHeap s arc);
               rSite = bs_site (beachHeap s rArc)
           in if lSite = rSite then (Inr (), s)
              else
                (let bx = sitex (siteHeap s cSite); by = sitey (siteHeap s cSite);
                     ax = sitex (siteHeap s lSite) - bx; ay = sitey (siteHeap s lSite) - by;
                     cx = sitex (siteHeap s rSite) - bx; cy = sitey (siteHeap s rSite) - by;
                     d = num 2 * (ax * cy - ay * cx)
                 in if - dbl 2 (10 ^ 12) \<le> d then (Inr (), s)
                    else
                      (let ha = ax * ax + ay * ay; hc = cx * cx + cy * cy;
                           x = (cy * ha - ay * hc) / d;
                           y = (ax * hc - cx * ha) / d;
                           yc = y + by;
                           (circleEvent', s1) = takeCircleEvent s;
                           s2 = s1\<lparr>circleHeap := (circleHeap s1)
                                  (circleEvent' := (circleHeap s1 circleEvent')
                                     \<lparr>ce_arc := Some arc, ce_site := Some cSite,
                                      ce_x := x + bx, ce_y := yc + sqrtn (x * x + y * y),
                                      ycenter := yc\<rparr>)\<rparr>;
                           s3 = s2\<lparr>beachHeap := (beachHeap s2)
                                  (arc := (beachHeap s2 arc)\<lparr>circleEvent := Some circleEvent'\<rparr>)\<rparr>
                       in case circleEvents s3 of
                            None \<Rightarrow> (Inl TypeError, s3)
                          | Some tree \<Rightarrow>
                              (let predecessor =
                                     findPredecessor (circleHeap s3)
                                       (ce_y (circleHeap s3 circleEvent'))
                                       (ce_x (circleHeap s3 circleEvent')) tree
                               in RBTree_call ''rbInsertSuccessor'' s3))))
      | _ \<Rightarrow> (Inr (), s))"

text \<open>
  \<^verbatim>\<open>detachCircleEvent(beachsection)\<close>: with an event attached, the call
  \<^verbatim>\<open>this.circleEvents.rbRemoveNode(circle)\<close> throws before the event is pushed on the
  junkyard and before \<^verbatim>\<open>beachsection.circleEvent\<close> is cleared.
\<close>

definition detachCircleEvent :: "ref \<Rightarrow> voronoi \<Rightarrow> (error + unit) \<times> voronoi" where
  "detachCircleEvent beachsection s =
     (case circleEvent (beachHeap s beachsection) of
        None \<Rightarrow> (Inr (), s)
      | Some circle \<Rightarrow>
          (let s1 = (if ce_rbPrevious (circleHeap s circle) = None
                     then s\<lparr>firstCircleEvent := ce_rbNext (circleHeap s circle)\<rparr> else s)
           in RBTree_call ''rbRemoveNode'' s1))"

text \<open>
  \<^verbatim>\<open>detachBeachsection(beachsection)\<close>: the call \<^verbatim>\<open>this.beachline.rbRemoveNode\<close> throws,
  so the push on the junkyard is never reached.
\<close>

definition detachBeachsection :: "ref \<Rightarrow> voronoi \<Rightarrow> (error + unit) \<times> voronoi" where
  "detachBeachsection beachsection s =
     (case detachCircleEvent beachsection s of
        (Inl e, s1) \<Rightarrow> (Inl e, s1)
      | (Inr _, s1) \<Rightarrow> RBTree_call ''rbRemoveNode'' s1)"

text \<open>
  \<^verbatim>\<open>removeBeachsection(beachsection)\<close> up to its call of \<^verbatim>\<open>detachBeachsection\<close>,
  which throws on every path; the statements after the call are never reached. The
  argument is \<^verbatim>\<open>circle.arc\<close>, which is \<^verbatim>\<open>null\<close> in a new circle event, and reading
  \<^verbatim>\<open>circle.x\<close> throws when the beach section has no circle event.
\<close>

definition removeBeachsection :: "ref option \<Rightarrow> voronoi \<Rightarrow> (error + unit) \<times> voronoi" where
  "removeBeachsection arc s =
     (case arc of
        None \<Rightarrow> (Inl TypeError, s)
      | Some beachsection \<Rightarrow>
          (case circleEvent (beachHeap s beachsection) of
             None \<Rightarrow> (Inl TypeError, s)
           | Some circle \<Rightarrow>
               (let (vertex, s1) =
                      createVertex (ce_x (circleHeap s circle)) (ycenter (circleHeap s circle)) s
                in detachBeachsection beachsection s1)))"

subsection \<open>closeCells\<close>

text \<open>
  \<^verbatim>\<open>closeCells(bbox)\<close> starts its loop over the cells, from the last one, with the call
  \<^verbatim>\<open>cell.prepareHalfedges()\<close>. A cell is built by \<^verbatim>\<open>new this.Cell(site)\<close> or
  initialised by \<^verbatim>\<open>initCell\<close>, with the properties \<^verbatim>\<open>site\<close>, \<^verbatim>\<open>halfedges\<close> and
  \<^verbatim>\<open>closeMe\<close>; \<^verbatim>\<open>prepareHalfedges\<close> is a method of the class \<^verbatim>\<open>Voronoi\<close> that takes
  the cell as its argument. So the call throws a TypeError for the first cell that the loop
  visits, and the body of the loop is never reached; the special case of a single site is
  a comment without code in the source.
\<close>

definition closeCells :: "BBox \<Rightarrow> voronoi \<Rightarrow> (error + unit) \<times> voronoi" where
  "closeCells bbox s = (if cells s = [] then (Inr (), s) else (Inl TypeError, s))"

subsection \<open>compute\<close>

text \<open>
  The comparison function of \<^verbatim>\<open>siteEvents.sort\<close>: descending in \<^verbatim>\<open>y\<close>, then
  descending in \<^verbatim>\<open>x\<close>.
\<close>

definition compareSites :: "Site \<Rightarrow> Site \<Rightarrow> number" where
  "compareSites a b = (let r = sitey b - sitey a in if truthyNumber r then r else sitex b - sitex a)"

text \<open>
  \<^verbatim>\<open>Array.prototype.sort\<close> is a stable sort, which takes a result of the comparison
  function that is not positive (\<^verbatim>\<open>NaN\<close> counts as zero) as leaving the first argument
  before the second. On coordinates that are not \<^verbatim>\<open>NaN\<close> the comparison function is
  a total preorder, for which every stable sort gives the result of the insertion sort
  below.
\<close>

fun insertSite :: "(ref \<Rightarrow> Site) \<Rightarrow> ref \<Rightarrow> ref list \<Rightarrow> ref list" where
  "insertSite h a [] = [a]"
| "insertSite h a (b # bs) =
     (if 0 < compareSites (h a) (h b) then b # insertSite h a bs else a # b # bs)"

definition sortSites :: "(ref \<Rightarrow> Site) \<Rightarrow> ref list \<Rightarrow> ref list" where
  "sortSites h sites = foldr (insertSite h) sites []"

text \<open>\<^verbatim>\<open>siteEvents.pop()\<close>: the last element, or \<^verbatim>\<open>undefined\<close>.\<close>

definition popSite :: "ref list \<Rightarrow> ref option \<times> ref list" where
  "popSite siteEvents = (if siteEvents = [] then (None, []) else (Some (last siteEvents), butlast siteEvents))"

text \<open>
  \<^verbatim>\<open>cells[siteid] = cell\<close>; in the loop \<^verbatim>\<open>siteid\<close> is the length of the array and the
  assignment appends.
\<close>

definition assignCell :: "nat \<Rightarrow> Cell \<Rightarrow> Cell list \<Rightarrow> Cell list" where
  "assignCell siteid cell cs = (if siteid < length cs then cs[siteid := cell] else cs @ [cell])"

text \<open>
  The test of the main loop that the next event is the site event:
  \<^verbatim>\<open>!circle || site.y < circle.y || (site.y === circle.y && site.x < circle.x)\<close>.
\<close>

definition siteIsNext :: "voronoi \<Rightarrow> ref \<Rightarrow> bool" where
  "siteIsNext s site =
     (case firstCircleEvent s of
        None \<Rightarrow> True
      | Some circle \<Rightarrow>
          sitey (siteHeap s site) < ce_y (circleHeap s circle) \<or>
          (eqn (sitey (siteHeap s site)) (ce_y (circleHeap s circle)) \<and>
           sitex (siteHeap s site) < ce_x (circleHeap s circle)))"

lemma RBTree_call_throws: "fst (RBTree_call m s) = Inl TypeError"
  by (simp add: RBTree_call_def)

lemma detachBeachsection_throws: "fst (detachBeachsection b s) = Inl TypeError"
  by (auto simp: detachBeachsection_def detachCircleEvent_def RBTree_call_def Let_def
           split: option.splits prod.splits sum.splits)

lemma removeBeachsection_throws: "fst (removeBeachsection arc s) = Inl TypeError"
  by (auto simp: removeBeachsection_def detachBeachsection_throws Let_def
           split: option.splits prod.splits)

lemma addBeachsection_throws: "fst (addBeachsection site s) = Inl TypeError"
  by (auto simp: addBeachsection_def RBTree_call_def Let_def split: option.splits prod.splits)

text \<open>
  The main loop \<^verbatim>\<open>for (;;)\<close> of \<^verbatim>\<open>compute\<close>. The arguments are the local variables
  \<^verbatim>\<open>site\<close>, \<^verbatim>\<open>siteEvents\<close>, \<^verbatim>\<open>siteid\<close> and the pair \<^verbatim>\<open>xsitex\<close>, \<^verbatim>\<open>xsitey\<close>, which
  is \<^verbatim>\<open>undefined\<close> until the first site is handled; the test for a duplicate is
  \<^verbatim>\<open>site.x !== xsitex || site.y !== xsitey\<close>. The loop ends: an iteration either
  takes a site from the queue or calls \<^term>\<open>removeBeachsection\<close>, which does not return.
\<close>

function mainLoop ::
  "ref option \<Rightarrow> ref list \<Rightarrow> nat \<Rightarrow> (number \<times> number) option \<Rightarrow> voronoi
     \<Rightarrow> (error + unit) \<times> voronoi" where
  "mainLoop site siteEvents siteid xsite s =
     (if site \<noteq> None \<and> siteIsNext s (the site) then
        (let st = the site; x = sitex (siteHeap s st); y = sitey (siteHeap s st)
         in if (case xsite of None \<Rightarrow> True
                | Some (xsitex, xsitey) \<Rightarrow> \<not> eqn x xsitex \<or> \<not> eqn y xsitey) then
              (let (cell, s1) = createCell st s;
                   s2 = s1\<lparr>cells := assignCell siteid cell (cells s1)\<rparr>;
                   s3 = s2\<lparr>siteHeap := (siteHeap s2)(st := (siteHeap s2 st)\<lparr>voronoiId := Some siteid\<rparr>)\<rparr>
               in case addBeachsection st s3 of
                    (Inl e, s4) \<Rightarrow> (Inl e, s4)
                  | (Inr _, s4) \<Rightarrow>
                      mainLoop (fst (popSite siteEvents)) (snd (popSite siteEvents))
                        (Suc siteid) (Some (x, y)) s4)
            else mainLoop (fst (popSite siteEvents)) (snd (popSite siteEvents)) siteid xsite s)
      else
        (case firstCircleEvent s of
           Some circle \<Rightarrow>
             (case removeBeachsection (ce_arc (circleHeap s circle)) s of
                (Inl e, s1) \<Rightarrow> (Inl e, s1)
              | (Inr _, s1) \<Rightarrow> mainLoop site siteEvents siteid xsite s1)
         | None \<Rightarrow> (Inr (), s)))"
  by pat_completeness auto
termination
proof (relation "measure (\<lambda>(site, siteEvents, siteid, xsite, s).
                   length siteEvents + (if site = None then 0 else 1))", goal_cases)
  case 1
  show ?case by simp
next
  case 2
  then show ?case by (auto simp: popSite_def)
next
  case 3
  then show ?case by (auto simp: popSite_def)
next
  case 4
  then show ?case
    by (metis removeBeachsection_throws fst_conv sum.distinct(1))
qed

declare mainLoop.simps [simp del]

text \<open>
  \<^verbatim>\<open>compute(sites, bbox)\<close>. The sites are the references in the array of the caller.
  \<^term>\<open>mergeRecycled\<close> is the block \<^verbatim>\<open>if (this.toRecycle) { ... }\<close>. The diagram takes the three arrays of the instance before the final \<^verbatim>\<open>reset()\<close>
  replaces them.
\<close>

definition mergeRecycled :: "voronoi \<Rightarrow> voronoi" where
  "mergeRecycled s =
     (case toRecycle s of
        None \<Rightarrow> s
      | Some d \<Rightarrow>
          s\<lparr>vertexJunkyard := vertexJunkyard s @ dvertices d,
            edgeJunkyard := edgeJunkyard s @ dedges d,
            cellJunkyard := cellJunkyard s @ dcells d,
            toRecycle := None\<rparr>)"

definition compute :: "ref list \<Rightarrow> BBox \<Rightarrow> voronoi \<Rightarrow> (error + Diagram) \<times> voronoi" where
  "compute sites bbox s =
     (case reset s of
        (Inl e, s1) \<Rightarrow> (Inl e, s1)
      | (Inr _, s1) \<Rightarrow>
          (let s2 = mergeRecycled s1;
               siteEvents = sortSites (siteHeap s2) sites
           in case mainLoop (fst (popSite siteEvents)) (snd (popSite siteEvents)) 0 None s2 of
                (Inl e, s3) \<Rightarrow> (Inl e, s3)
              | (Inr _, s3) \<Rightarrow>
                  (case clipEdges bbox s3 of
                     (Inl e, s4) \<Rightarrow> (Inl e, s4)
                   | (Inr _, s4) \<Rightarrow>
                       (case closeCells bbox s4 of
                          (Inl e, s5) \<Rightarrow> (Inl e, s5)
                        | (Inr _, s5) \<Rightarrow>
                            (let diagram = \<lparr>dcells = cells s5, dedges = edges s5,
                                            dvertices = vertices s5\<rparr>
                             in case reset s5 of
                                  (Inl e, s6) \<Rightarrow> (Inl e, s6)
                                | (Inr _, s6) \<Rightarrow> (Inr diagram, s6))))))"

subsection \<open>States and inputs used in the examples\<close>

text \<open>
  A state is idle when the beach line has no node: the tree object is missing or its root
  is \<^verbatim>\<open>null\<close>. The constructor gives an idle state, and no function of the source
  that can run assigns another root.
\<close>

definition idle :: "voronoi \<Rightarrow> bool" where
  "idle s \<longleftrightarrow> beachline s = None \<or> beachline s = Some RBNull"

text \<open>The heap in which the site with reference \<open>i\<close> has the \<open>i\<close>-th pair of coordinates.\<close>

definition sitesAt :: "(number \<times> number) list \<Rightarrow> ref \<Rightarrow> Site" where
  "sitesAt ps r =
     (if r < length ps then \<lparr>sitex = fst (ps ! r), sitey = snd (ps ! r), voronoiId = None\<rparr>
      else noSites r)"

definition unitBox :: BBox where
  "unitBox = \<lparr>xl = 0, xr = 1, yt = 0, yb = 1\<rparr>"

text \<open>
  The site that the main loop handles first: the last element of the sorted array.
\<close>

definition firstSite :: "(ref \<Rightarrow> Site) \<Rightarrow> ref list \<Rightarrow> ref" where
  "firstSite h sites = last (sortSites h sites)"

text \<open>
  The state in which the first iteration of the main loop leaves the instance when it
  handles the site \<open>st\<close> with the identifier \<open>n\<close>: the cell is created and stored, the
  identifier is assigned, and \<^term>\<open>addBeachsection\<close> has run up to its throw.
\<close>

definition afterFirstSite :: "ref \<Rightarrow> nat \<Rightarrow> voronoi \<Rightarrow> voronoi" where
  "afterFirstSite st n s =
     (let s1 = snd (createCell st s);
          s2 = s1\<lparr>cells := assignCell n (fst (createCell st s)) (cells s1)\<rparr>;
          s3 = s2\<lparr>siteHeap := (siteHeap s2)(st := (siteHeap s2 st)\<lparr>voronoiId := Some n\<rparr>)\<rparr>
      in snd (addBeachsection st s3))"

text \<open>
  The quantity \<^verbatim>\<open>d = 2 * (ax * cy - ay * cx)\<close> of \<^verbatim>\<open>attachCircleEvent\<close> for the sites
  of the left, the centre and the right arc.
\<close>

definition orientationD :: "Site \<Rightarrow> Site \<Rightarrow> Site \<Rightarrow> number" where
  "orientationD l c r =
     num 2 * ((sitex l - sitex c) * (sitey r - sitey c) - (sitey l - sitey c) * (sitex r - sitex c))"

text \<open>
  A beach line for the examples, over given sites: the arc \<open>b\<close> is over the site \<open>b\<close>,
  between the arcs \<open>b - 1\<close> and \<open>b + 1\<close>, and the queue of circle events is empty. In
  \<open>beachOfThree\<close> the sites are \<open>(-5, 0)\<close>, \<open>(0, -5)\<close> and \<open>(5, 0)\<close>.
\<close>

definition arcsInLine :: "ref \<Rightarrow> Beachsection" where
  "arcsInLine b =
     \<lparr>bs_site = b, bs_rbPrevious = (if b = 0 then None else Some (b - 1)),
      bs_rbNext = Some (Suc b), circleEvent = None, bs_edge = None\<rparr>"

definition beachOf :: "(number \<times> number) list \<Rightarrow> voronoi" where
  "beachOf ps = (newVoronoi (sitesAt ps))\<lparr>beachHeap := arcsInLine, circleEvents := Some RBNull\<rparr>"

definition beachOfThree :: voronoi where
  "beachOfThree = beachOf [(num (- 5), 0), (0, num (- 5)), (num 5, 0)]"

text \<open>
  The state after the assignments of \<^verbatim>\<open>attachCircleEvent\<close> up to
  \<^verbatim>\<open>arc.circleEvent = circleEvent\<close>, for the given field values of the event.
\<close>

definition attached :: "ref \<Rightarrow> number \<Rightarrow> number \<Rightarrow> number \<Rightarrow> ref \<Rightarrow> voronoi \<Rightarrow> voronoi" where
  "attached arc x y yc cSite s =
     (let ev = fst (takeCircleEvent s); s1 = snd (takeCircleEvent s);
          s2 = s1\<lparr>circleHeap := (circleHeap s1)
                                  (ev := (circleHeap s1 ev)
                                     \<lparr>ce_arc := Some arc, ce_site := Some cSite,
                                      ce_x := x, ce_y := y,
                                      ycenter := yc\<rparr>)\<rparr>
      in s2\<lparr>beachHeap := (beachHeap s2)
                                  (arc := (beachHeap s2 arc)\<lparr>circleEvent := Some ev\<rparr>)\<rparr>)"

subsection \<open>Well-formed pools and edges\<close>

text \<open>
  The vertex junkyard is in order when it holds no vertex twice and no vertex of
  \<^verbatim>\<open>this.vertices\<close>, and when the allocator is beyond every vertex of both. This is the
  state of an instance whose caller recycles a diagram at most once and never a diagram
  that is still in use, as the interface demands.
\<close>

definition poolOk :: "voronoi \<Rightarrow> bool" where
  "poolOk s \<longleftrightarrow>
     distinct (vertexJunkyard s) \<and>
     set (vertexJunkyard s) \<inter> set (vertices s) = {} \<and>
     (\<forall>v\<in>set (vertexJunkyard s) \<union> set (vertices s). v < vertexNext s)"

text \<open>The site has an identifier that is an index of \<^verbatim>\<open>this.cells\<close>.\<close>

definition hasCell :: "voronoi \<Rightarrow> ref \<Rightarrow> bool" where
  "hasCell s site \<longleftrightarrow>
     (case voronoiId (siteHeap s site) of None \<Rightarrow> False | Some i \<Rightarrow> i < length (cells s))"

text \<open>The heap in which the site with reference \<open>i\<close> also has the identifier \<open>i\<close>.\<close>

definition sitesWithIds :: "(number \<times> number) list \<Rightarrow> ref \<Rightarrow> Site" where
  "sitesWithIds ps r = (sitesAt ps r)\<lparr>voronoiId := Some r\<rparr>"

text \<open>
  An instance for the examples of \<^term>\<open>connectEdge\<close>: the two sites \<open>(3, 1/2)\<close> and
  \<open>(5, 1/2)\<close> with their cells, and the edge \<open>0\<close> between them with both ends open.
\<close>

definition connectExample :: voronoi where
  "connectExample =
     (newVoronoi (sitesWithIds [(num 3, dbl 1 2), (num 5, dbl 1 2)]))
       \<lparr>edges := [0],
        cells := [\<lparr>cell_site = 0, halfedges = [], closeMe = False\<rparr>,
                  \<lparr>cell_site = 1, halfedges = [], closeMe = False\<rparr>],
        edgeHeap := (\<lambda>e. \<lparr>lSite = 0, rSite = Some 1, va = None, vb = None\<rparr>)\<rparr>"

text \<open>
  An instance for the examples of \<^term>\<open>clipEdge\<close>: the sites \<open>(1/4, 1/4)\<close> and
  \<open>(1/4, 3/4)\<close> with their cells, the vertices \<open>0\<close> at \<open>(-1, 1/2)\<close> and \<open>1\<close> at
  \<open>(1/2, 1/2)\<close>, the edge \<open>0\<close> from the first to the second, and the vertex \<open>5\<close> in the
  junkyard.
\<close>

definition clipExample :: voronoi where
  "clipExample =
     (newVoronoi (sitesWithIds [(dbl 1 4, dbl 1 4), (dbl 1 4, dbl 3 4)]))
       \<lparr>vertices := [0, 1], edges := [0],
        cells := [\<lparr>cell_site = 0, halfedges = [], closeMe = False\<rparr>,
                  \<lparr>cell_site = 1, halfedges = [], closeMe = False\<rparr>],
        vertexJunkyard := [5],
        vertexHeap := (\<lambda>v. if v = 0 then \<lparr>vx = - 1, vy = dbl 1 2\<rparr>
                            else \<lparr>vx = dbl 1 2, vy = dbl 1 2\<rparr>),
        vertexNext := 6,
        edgeHeap := (\<lambda>e. \<lparr>lSite = 0, rSite = Some 1, va = Some 0, vb = Some 1\<rparr>)\<rparr>"

text \<open>
  The state \<open>s'\<close> comes after \<open>s\<close> without a write to a vertex of \<open>s\<close>: its pools
  are in order, it has the vertices of \<open>s\<close>, and they have their coordinates.
\<close>

definition grows :: "voronoi \<Rightarrow> voronoi \<Rightarrow> bool" where
  "grows s s' \<longleftrightarrow> poolOk s' \<and> set (vertices s) \<subseteq> set (vertices s') \<and>
      (\<forall>v\<in>set (vertices s). vertexHeap s' v = vertexHeap s v)"

text \<open>The array of cells after marking the cells \<open>i\<close> and \<open>j\<close>.\<close>

definition marked :: "nat \<Rightarrow> nat \<Rightarrow> Cell list \<Rightarrow> Cell list" where
  "marked i j cs = (let cs' = cs[i := (cs ! i)\<lparr>closeMe := True\<rparr>]
                    in cs'[j := (cs' ! j)\<lparr>closeMe := True\<rparr>])"

subsection \<open>The edges that clipEdges keeps\<close>

text \<open>
  What the specification says of an edge that \<^verbatim>\<open>clipEdges\<close> keeps, in a given state:
  \<^verbatim>\<open>connectEdge\<close> succeeds on it, \<^verbatim>\<open>clipEdge\<close> succeeds on the connected edge, and
  the end points are then not within \<open>1e-9\<close> of each other in both coordinates, which
  is the test \<^term>\<open>pointLike\<close> of the source.
\<close>

definition edgeSurvives :: "BBox \<Rightarrow> voronoi \<Rightarrow> ref \<Rightarrow> bool" where
  "edgeSurvives bbox s e \<longleftrightarrow>
     fst (connectEdge e bbox s) = Inr True \<and>
     fst (clipEdge e bbox (snd (connectEdge e bbox s))) = Inr True \<and>
     pointLike e (snd (clipEdge e bbox (snd (connectEdge e bbox s)))) = Inr False"

text \<open>
  An edge of the sweep: it lies between two sites that have cells, its end points are
  vertices of \<^verbatim>\<open>this.vertices\<close>, and it has no end point without a start point (the
  first vertex that \<^verbatim>\<open>setEdgeStartpoint\<close> stores in an edge is \<^verbatim>\<open>va\<close>).
\<close>

definition edgeOk :: "voronoi \<Rightarrow> ref \<Rightarrow> bool" where
  "edgeOk s e \<longleftrightarrow>
     hasCell s (lSite (edgeHeap s e)) \<and>
     (case rSite (edgeHeap s e) of None \<Rightarrow> False | Some rs \<Rightarrow> hasCell s rs) \<and>
     (case va (edgeHeap s e) of
        None \<Rightarrow> vb (edgeHeap s e) = None
      | Some a \<Rightarrow> a \<in> set (vertices s)) \<and>
     (case vb (edgeHeap s e) of None \<Rightarrow> True | Some b \<Rightarrow> b \<in> set (vertices s))"

text \<open>
  The state in which \<^verbatim>\<open>compute\<close> is meant to call \<^verbatim>\<open>clipEdges\<close>: the vertex pool is in
  order, no edge is twice in \<^verbatim>\<open>this.edges\<close>, and every edge is an edge of the sweep.
\<close>

definition edgesOk :: "voronoi \<Rightarrow> bool" where
  "edgesOk s \<longleftrightarrow> poolOk s \<and> distinct (edges s) \<and> (\<forall>e\<in>set (edges s). edgeOk s e)"


text \<open>
  An instance in which the rounding of the point-like test shows: the edge \<open>0\<close> runs
  from the vertex \<open>(1e-9, 1/2)\<close> to the vertex \<open>(3 * 2^-85, 1/2)\<close>, inside the unit
  box.
\<close>

definition roundingExample :: voronoi where
  "roundingExample =
     (newVoronoi (sitesWithIds [(dbl 1 4, dbl 1 4), (dbl 1 4, dbl 3 4)]))
       \<lparr>vertices := [0, 1], edges := [0],
        cells := [\<lparr>cell_site = 0, halfedges = [], closeMe = False\<rparr>,
                  \<lparr>cell_site = 1, halfedges = [], closeMe = False\<rparr>],
        vertexHeap := (\<lambda>v. if v = 0 then \<lparr>vx = dbl 1 (10 ^ 9), vy = dbl 1 2\<rparr>
                            else \<lparr>vx = Finite False 3 (- 85), vy = dbl 1 2\<rparr>),
        vertexNext := 2,
        edgeHeap := (\<lambda>e. \<lparr>lSite = 0, rSite = Some 1, va = Some 0, vb = Some 1\<rparr>)\<rparr>"

text \<open>
  The remaining notions of this section serve the proof about \<^verbatim>\<open>clipEdges\<close>: they say
  what \<^verbatim>\<open>connectEdge\<close> and \<^verbatim>\<open>clipEdge\<close> do to an edge in terms of the coordinates
  alone.
\<close>

definition vertexAt :: "number \<times> number \<Rightarrow> Vertex" where
  "vertexAt p = \<lparr>vx = fst p, vy = snd p\<rparr>"

text \<open>
  The end points of an edge after \<^verbatim>\<open>connectEdge\<close>, from the coordinates of its sites and
  of its end points before; \<^term>\<open>None\<close> when \<^verbatim>\<open>connectEdge\<close> gives up.
\<close>

definition connectedEnds ::
  "BBox \<Rightarrow> Site \<Rightarrow> Site \<Rightarrow> Vertex option \<Rightarrow> Vertex option \<Rightarrow> (Vertex \<times> Vertex) option" where
  "connectedEnds bbox l r a b =
     (case b of
        Some bv \<Rightarrow> (case a of Some av \<Rightarrow> Some (av, bv) | None \<Rightarrow> None)
      | None \<Rightarrow>
          (case connectGeometry bbox l r a of
             Reject \<Rightarrow> None
           | Connect st q \<Rightarrow>
               (case st of
                  Some p \<Rightarrow> Some (vertexAt p, vertexAt q)
                | None \<Rightarrow> (case a of Some av \<Rightarrow> Some (av, vertexAt q) | None \<Rightarrow> None))))"

text \<open>
  The end points after \<^verbatim>\<open>clipEdge\<close>, from the end points before; \<^term>\<open>None\<close> when
  \<^verbatim>\<open>clipEdge\<close> gives up.
\<close>

definition clippedEnds :: "BBox \<Rightarrow> Vertex \<times> Vertex \<Rightarrow> (Vertex \<times> Vertex) option" where
  "clippedEnds bbox ends =
     (let a = fst ends; b = snd ends
      in case clipParams bbox a b of
           None \<Rightarrow> None
         | Some (t0, t1) \<Rightarrow>
             Some (if 0 < t0 then \<lparr>vx = vx a + t0 * (vx b - vx a), vy = vy a + t0 * (vy b - vy a)\<rparr> else a,
                   if t1 < 1 then \<lparr>vx = vx a + t1 * (vx b - vx a), vy = vy a + t1 * (vy b - vy a)\<rparr> else b))"

text \<open>The negation of the point-like test of \<^verbatim>\<open>clipEdges\<close>.\<close>

definition farApart :: "Vertex \<times> Vertex \<Rightarrow> bool" where
  "farApart ends \<longleftrightarrow>
     \<not> (\<bar>vx (fst ends) - vx (snd ends)\<bar> < dbl 1 (10 ^ 9) \<and>
        \<bar>vy (fst ends) - vy (snd ends)\<bar> < dbl 1 (10 ^ 9))"

text \<open>
  The coordinates of the two end points of an edge, when it has both and they are
  vertices of \<^verbatim>\<open>this.vertices\<close>.
\<close>

definition endsOf :: "voronoi \<Rightarrow> ref \<Rightarrow> (Vertex \<times> Vertex) option" where
  "endsOf s e =
     (case (va (edgeHeap s e), vb (edgeHeap s e)) of
        (Some a, Some b) \<Rightarrow>
          if a \<in> set (vertices s) \<and> b \<in> set (vertices s)
          then Some (vertexHeap s a, vertexHeap s b) else None
      | _ \<Rightarrow> None)"

text \<open>
  The state \<open>s'\<close> comes from \<open>s\<close> by work on the edge \<open>e\<close> alone: no vertex of \<open>s\<close>
  is written, the array of edges, the sites and the number of cells are the same, every
  other edge is untouched, and \<open>e\<close> keeps its sites.
\<close>

definition worksOn :: "ref \<Rightarrow> voronoi \<Rightarrow> voronoi \<Rightarrow> bool" where
  "worksOn e s s' \<longleftrightarrow>
     grows s s' \<and> edges s' = edges s \<and> siteHeap s' = siteHeap s \<and>
     length (cells s') = length (cells s) \<and>
     (\<forall>e'. e' \<noteq> e \<longrightarrow> edgeHeap s' e' = edgeHeap s e') \<and>
     lSite (edgeHeap s' e) = lSite (edgeHeap s e) \<and>
     rSite (edgeHeap s' e) = rSite (edgeHeap s e)"

text \<open>\<^term>\<open>connectedEnds\<close> for an edge of a state.\<close>

definition connectedOf :: "BBox \<Rightarrow> voronoi \<Rightarrow> ref \<Rightarrow> (Vertex \<times> Vertex) option" where
  "connectedOf bbox s e =
     (case rSite (edgeHeap s e) of
        None \<Rightarrow> None
      | Some rs \<Rightarrow>
          connectedEnds bbox (siteHeap s (lSite (edgeHeap s e))) (siteHeap s rs)
            (map_option (vertexHeap s) (va (edgeHeap s e)))
            (map_option (vertexHeap s) (vb (edgeHeap s e))))"

text \<open>
  The edge passes the three tests of \<^verbatim>\<open>clipEdges\<close>, computed from the coordinates.
\<close>

definition survivesView :: "BBox \<Rightarrow> voronoi \<Rightarrow> ref \<Rightarrow> bool" where
  "survivesView bbox s e \<longleftrightarrow>
     (case connectedOf bbox s e of
        None \<Rightarrow> False
      | Some ab \<Rightarrow> (case clippedEnds bbox ab of None \<Rightarrow> False | Some cd \<Rightarrow> farApart cd))"

section \<open>Properties\<close>

subsection \<open>Evaluation of the arithmetic\<close>

text \<open>
  The recursive functions of the arithmetic, on numerals: with these rules the simplifier
  computes the operations on given doubles.
\<close>

lemma bitlen_0: "bitlen 0 = 0"
  by (simp add: bitlen.simps)

lemma bitlen_1: "bitlen (Suc 0) = 1"
  by (simp add: bitlen.simps)

lemma bitlen_numeral: "bitlen (numeral k) = 1 + bitlen (numeral k div 2)"
  by (subst bitlen.simps) simp

lemma oddPart_0: "oddPart 0 e = (0, 0)"
  by (simp add: oddPart.simps)

lemma oddPart_1: "oddPart (Suc 0) e = (Suc 0, e)"
  by (simp add: oddPart.simps)

lemma oddPart_numeral:
  "oddPart (numeral k) e =
     (if even (numeral k :: nat) then oddPart (numeral k div 2) (e + 1) else (numeral k, e))"
  by (subst oddPart.simps) simp

lemma isqrt_0: "isqrt 0 = 0"
  by (simp add: isqrt.simps)

lemma isqrt_1: "isqrt (Suc 0) = 1"
  by (simp add: isqrt.simps)

lemma isqrt_numeral:
  "isqrt (numeral k) =
     (if (numeral k :: nat) < 2 then numeral k
      else (let r = 2 * isqrt (numeral k div 4)
            in if (r + 1) * (r + 1) \<le> numeral k then r + 1 else r))"
  by (subst isqrt.simps) simp

lemmas number_eval =
  bitlen_0 bitlen_1 bitlen_numeral oddPart_0 oddPart_1 oddPart_numeral
  isqrt_0 isqrt_1 isqrt_numeral
  pack_def round53_def roundSticky_def scaled_def Let_def
  zero_number_def one_number_def minus_number_def less_eq_number_def inverse_number_def
  num_def dbl_def

text \<open>
  Some values of the arithmetic: the literal \<^verbatim>\<open>1e-9\<close>; \<^verbatim>\<open>0.1 + 0.2\<close>, which is
  \<^verbatim>\<open>0.30000000000000004\<close>; \<^verbatim>\<open>Math.sqrt(2)\<close>; a product that rounds up to \<open>1\<close>;
  the overflow of the largest double; the smallest subnormal number, whose half is a tie
  and rounds to zero; the quotients by zero.
\<close>

lemma arithmetic_examples:
  "dbl 1 (10 ^ 9) = Finite False 4835703278458517 (- 82)"
  "dbl 1 10 + dbl 2 10 = Finite False 1351079888211149 (- 52)"
  "sqrtn (num 2) = Finite False 6369051672525773 (- 52)"
  "dbl 2 3 * dbl 3 2 = 1"
  "Finite False 9007199254740991 971 + Finite False 1 970 = Infinity False"
  "Finite False 1 (- 1074) / num 2 = 0"
  "Finite True 1 (- 1074) / num 2 = Finite True 0 0"
  "1 / (0 :: number) = Infinity False"
  "1 / (- 0 :: number) = Infinity True"
  "0 / (0 :: number) = NaN"
  "\<not> NaN < (1 :: number) \<and> \<not> 1 \<le> NaN \<and> \<not> eqn NaN NaN \<and> eqn 0 (- 0)"
  by (simp_all add: number_eval)


subsection \<open>filterSimilarPoints\<close>

lemma fold_tooClose:
  "fold (\<lambda>i acc. if withinThreshold t (ps ! i) (ps ! (i + 1)) then insert (i + 1) acc else acc)
        [0..<n] acc
     = acc \<union> {i. 0 < i \<and> i \<le> n \<and> withinThreshold t (ps ! (i - 1)) (ps ! i)}"
proof (induction n arbitrary: acc)
  case 0
  then show ?case by auto
next
  case (Suc n)
  show ?case
    unfolding upt_Suc_append[OF le0] fold_append comp_def Suc.IH
    by (auto simp: le_Suc_eq)
qed

lemma indexesTooCloseToPrevious_eq:
  "indexesTooCloseToPrevious ps t =
     {i. 0 < i \<and> i < length ps \<and> withinThreshold t (ps ! (i - 1)) (ps ! i)}"
  unfolding indexesTooCloseToPrevious_def fold_tooClose by auto

lemma enumerate_filter_index:
  "map snd (filter (\<lambda>(i, p). P i) (enumerate 0 xs)) = map (\<lambda>i. xs ! i) (filter P [0..<length xs])"
proof -
  have "enumerate 0 xs = map (\<lambda>i. (i, xs ! i)) [0..<length xs]"
    by (rule nth_equalityI) (simp_all add: enumerate_eq_zip)
  then show ?thesis
    by (simp add: filter_map comp_def)
qed

text \<open>
  On a list of two or more points the function returns what the specification words.
\<close>

lemma filterSimilarPoints_refines_spec:
  assumes "2 \<le> length ps"
  shows "filterSimilarPoints ps t = Inr (filterSimilarPoints_spec ps t)"
proof -
  from assms have ne: "ps \<noteq> []" by auto
  define idx' where "idx' = (if withinThreshold t (hd ps) (last ps)
      then insert (length ps - 1) (indexesTooCloseToPrevious ps t)
      else indexesTooCloseToPrevious ps t)"
  have idx'_eq: "i \<notin> idx' \<longleftrightarrow> \<not> removedBySpec t ps i" if "i < length ps" for i
    unfolding idx'_def indexesTooCloseToPrevious_eq removedBySpec_def
    using ne that by (auto simp: last_conv_nth hd_conv_nth)
  define kept where
    "kept = map (\<lambda>i. ps ! i) (filter (\<lambda>i. \<not> removedBySpec t ps i) [0..<length ps])"
  have "filter (\<lambda>i. i \<notin> idx') [0..<length ps]
      = filter (\<lambda>i. \<not> removedBySpec t ps i) [0..<length ps]"
    by (rule filter_cong) (auto simp: idx'_eq)
  then have filt: "map snd (filter (\<lambda>(i, p). i \<notin> idx') (enumerate 0 ps)) = kept"
    unfolding enumerate_filter_index kept_def by simp
  have "\<not> removedBySpec t ps 0"
    using assms by (auto simp: removedBySpec_def)
  moreover have "[0..<length ps] = 0 # [Suc 0..<length ps]"
    using assms by (subst upt_rec) auto
  ultimately have "kept = ps ! 0 #
      map (\<lambda>i. ps ! i) (filter (\<lambda>i. \<not> removedBySpec t ps i) [Suc 0..<length ps])"
    unfolding kept_def by simp
  then have kne: "kept \<noteq> []" by simp
  have "filterSimilarPoints ps t =
      (if kept = [] then Inl TypeError
       else if withinThreshold t (hd kept) (last kept) then Inr (butlast kept) else Inr kept)"
    unfolding filterSimilarPoints_def Let_def list.case_eq_if idx'_def[symmetric] filt
    using ne by (rule if_not_P)
  also have "\<dots> = Inr (filterSimilarPoints_spec ps t)"
    unfolding filterSimilarPoints_spec_def Let_def kept_def[symmetric]
    using kne by simp
  finally show ?thesis .
qed

text \<open>
  A point compared with itself: the differences are zero when the coordinates are finite
  and \<^verbatim>\<open>NaN\<close> otherwise.
\<close>

lemma abs_sub_self_less: "\<bar>x - x\<bar> < t \<longleftrightarrow> isFinite x \<and> 0 < t"
  by (cases x) (simp_all add: minus_number_def scaled_def zero_number_def)

lemma withinThreshold_self:
  "withinThreshold t p p \<longleftrightarrow> isFinite (px p) \<and> isFinite (py p) \<and> 0 < t"
  by (auto simp: withinThreshold_def abs_sub_self_less)

lemma filterSimilarPoints_single:
  "filterSimilarPoints [p] t = (if withinThreshold t p p then Inl TypeError else Inr [p])"
  by (simp add: filterSimilarPoints_def indexesTooCloseToPrevious_def enumerate_eq_zip)

lemma filterSimilarPoints_spec_single:
  "filterSimilarPoints_spec [p] t = (if withinThreshold t p p then [] else [p])"
  by (simp add: filterSimilarPoints_spec_def removedBySpec_def)

text \<open>The empty list: reading \<^verbatim>\<open>points[0].x\<close> throws.\<close>

lemma filterSimilarPoints_empty: "filterSimilarPoints [] t = Inl TypeError"
  by (simp add: filterSimilarPoints_def)

text \<open>
  Lists of two or more points return normally. A list of one point does not when the
  point is within the threshold of itself: the wrap-around test compares the point with
  itself, the filter removes it, and \<^verbatim>\<open>filteredPts[0].x\<close> reads a property of
  \<^verbatim>\<open>undefined\<close> (lemma \<open>filterSimilarPoints_single\<close>).
\<close>

lemma filterSimilarPoints_returns:
  "2 \<le> length ps \<Longrightarrow> \<exists>res. filterSimilarPoints ps t = Inr res"
  by (simp add: filterSimilarPoints_refines_spec)

lemma length_one: "length ps = 1 \<Longrightarrow> \<exists>p. ps = [p]"
  by (cases ps) auto

text \<open>
  The comparisons are those of the doubles. The difference \<open>1 - 2^-60\<close> rounds to
  \<open>1\<close>, which is not below the threshold \<open>1\<close>: of the points \<open>(1, 0)\<close>,
  \<open>(2^-60, 0)\<close>, \<open>(5, 5)\<close> none is removed, although the first two are less than
  \<open>1\<close> apart.
\<close>

lemma filterSimilarPoints_rounds:
  "filterSimilarPoints
     [\<lparr>px = 1, py = 0\<rparr>, \<lparr>px = dbl 1 (2 ^ 60), py = 0\<rparr>, \<lparr>px = num 5, py = num 5\<rparr>] 1
   = Inr [\<lparr>px = 1, py = 0\<rparr>, \<lparr>px = dbl 1 (2 ^ 60), py = 0\<rparr>, \<lparr>px = num 5, py = num 5\<rparr>]"
  by (simp add: filterSimilarPoints_def indexesTooCloseToPrevious_def withinThreshold_def
        enumerate_eq_zip upt_conv_Cons number_eval)

text \<open>
  C6, as stated: for every non-empty list the function returns the list that the words
  of the claim describe. For the list of the single point \<open>(0, 0)\<close> and the threshold
  \<open>0.001\<close> these words give the empty list, and the source throws a TypeError.
\<close>

theorem filterSimilarPoints_single_point_diverges:
  "filterSimilarPoints [\<lparr>px = 0, py = 0\<rparr>] (dbl 1 1000) = Inl TypeError \<and>
   filterSimilarPoints_spec [\<lparr>px = 0, py = 0\<rparr>] (dbl 1 1000) = []"
  by (simp add: filterSimilarPoints_single filterSimilarPoints_spec_single withinThreshold_self
        number_eval)

text \<open>
  C6, amended: for every list of two or more points, and for a list of one point that
  is not within the threshold of itself (the threshold is not positive, or a coordinate
  is not finite), \<^verbatim>\<open>filterSimilarPoints\<close> returns the list of the points whose
  predecessor (for the last point also the first point) is not within the threshold in
  both axes, without its last point if that is within the threshold of its first point.
  Within the threshold means that \<^verbatim>\<open>Math.abs(a - b) < threshold\<close> holds in the arithmetic
  of the doubles. The witness is the example of the specification.
\<close>

theorem filterSimilarPoints_as_specified:
  assumes "2 \<le> length ps \<or>
           (length ps = 1 \<and> \<not> (isFinite (px (hd ps)) \<and> isFinite (py (hd ps)) \<and> 0 < t))"
  shows "filterSimilarPoints ps t = Inr (filterSimilarPoints_spec ps t)"
proof (cases "2 \<le> length ps")
  case True
  then show ?thesis by (rule filterSimilarPoints_refines_spec)
next
  case False
  with assms have l: "length ps = 1"
    and t: "\<not> (isFinite (px (hd ps)) \<and> isFinite (py (hd ps)) \<and> 0 < t)" by auto
  from l obtain p where "ps = [p]" using length_one by blast
  with t show ?thesis
    by (simp add: filterSimilarPoints_single filterSimilarPoints_spec_single withinThreshold_self)
qed

theorem filterSimilarPoints_as_specified_witness:
  "filterSimilarPoints
     [\<lparr>px = 0, py = 0\<rparr>, \<lparr>px = 0, py = dbl 1 10000\<rparr>, \<lparr>px = 1, py = 1\<rparr>] (dbl 1 1000)
   = Inr [\<lparr>px = 0, py = 0\<rparr>, \<lparr>px = 1, py = 1\<rparr>]"
proof -
  let ?ps = "[\<lparr>px = 0, py = 0\<rparr>, \<lparr>px = 0, py = dbl 1 10000\<rparr>, \<lparr>px = 1, py = 1\<rparr>]"
  have h: "2 \<le> length ?ps \<or>
      (length ?ps = 1 \<and>
       \<not> (isFinite (px (hd ?ps)) \<and> isFinite (py (hd ?ps)) \<and> 0 < dbl 1 1000))"
    by simp
  have "filterSimilarPoints_spec ?ps (dbl 1 1000) = [\<lparr>px = 0, py = 0\<rparr>, \<lparr>px = 1, py = 1\<rparr>]"
    by (simp add: filterSimilarPoints_spec_def removedBySpec_def withinThreshold_def
        upt_conv_Cons number_eval)
  with filterSimilarPoints_as_specified[OF h] show ?thesis by simp
qed

text \<open>
  C10, as stated: the function returns normally for every list of length at least one.
  For the list of the single point \<open>(3, 4)\<close> and the default threshold \<open>0.002\<close> it
  throws.
\<close>

theorem filterSimilarPoints_single_point_throws:
  "filterSimilarPoints [\<lparr>px = num 3, py = num 4\<rparr>] (dbl 2 1000) = Inl TypeError"
  by (simp add: filterSimilarPoints_single withinThreshold_self number_eval)

text \<open>
  C10, amended: \<^verbatim>\<open>filterSimilarPoints\<close> throws (a TypeError, reading a property of
  \<^verbatim>\<open>undefined\<close>) exactly for the empty list and for a list of one point with finite
  coordinates and a positive threshold; it returns normally exactly for the lists of two
  or more points and for a list of one point with a threshold that is not positive or
  with a coordinate that is not finite.
\<close>

theorem filterSimilarPoints_throws_iff:
  "(filterSimilarPoints ps t = Inl TypeError \<longleftrightarrow>
      ps = [] \<or>
      (length ps = 1 \<and> isFinite (px (hd ps)) \<and> isFinite (py (hd ps)) \<and> 0 < t)) \<and>
   ((\<exists>res. filterSimilarPoints ps t = Inr res) \<longleftrightarrow>
      2 \<le> length ps \<or>
      (length ps = 1 \<and> \<not> (isFinite (px (hd ps)) \<and> isFinite (py (hd ps)) \<and> 0 < t)))"
proof -
  consider "ps = []" | "length ps = 1" | "2 \<le> length ps"
    by (cases ps; cases "tl ps") auto
  then show ?thesis
  proof cases
    case 1
    then show ?thesis by (simp add: filterSimilarPoints_empty)
  next
    case 2
    then obtain p where "ps = [p]" using length_one by blast
    then show ?thesis by (auto simp: filterSimilarPoints_single withinThreshold_self)
  next
    case 3
    then have "ps \<noteq> []" "length ps \<noteq> 1" by auto
    with 3 show ?thesis
      by (simp add: filterSimilarPoints_refines_spec)
  qed
qed

theorem filterSimilarPoints_throws_iff_witness:
  "filterSimilarPoints [\<lparr>px = num 3, py = num 4\<rparr>] (dbl 2 1000) = Inl TypeError \<and>
   (\<exists>res. filterSimilarPoints [\<lparr>px = NaN, py = num 4\<rparr>] (dbl 2 1000) = Inr res)"
  using filterSimilarPoints_throws_iff[of "[\<lparr>px = num 3, py = num 4\<rparr>]" "dbl 2 1000"]
    filterSimilarPoints_throws_iff[of "[\<lparr>px = NaN, py = num 4\<rparr>]" "dbl 2 1000"]
  by (simp add: number_eval)

subsection \<open>recycle\<close>

text \<open>
  C8, as stated: every value that is not a Diagram object makes \<^verbatim>\<open>recycle\<close> throw. The
  guard \<^verbatim>\<open>if (diagram)\<close> of the source lets \<^verbatim>\<open>null\<close> through: the call returns
  normally.
\<close>

theorem recycle_null_returns: "fst (recycle Null freshVoronoi) = Inr ()"
  by (simp add: recycle_def)

text \<open>
  C8, amended: for a value that is not a Diagram object of this instance, \<^verbatim>\<open>recycle\<close>
  throws its message when the value is truthy and returns normally when it is falsy
  (\<^verbatim>\<open>undefined\<close>, \<^verbatim>\<open>null\<close>, \<^verbatim>\<open>false\<close>, \<open>0\<close>, \<^verbatim>\<open>NaN\<close>, the empty string); in both
  cases the state, with \<^verbatim>\<open>toRecycle\<close> and all junkyards, is unchanged.
\<close>

theorem recycle_non_diagram:
  "(\<forall>d. v \<noteq> DiagramObject d) \<Longrightarrow>
   recycle v s =
     (if truthy v
      then (Inl (Thrown ''Voronoi.recycleDiagram() > Need a Diagram object.''), s)
      else (Inr (), s))"
  by (cases v) (auto simp: recycle_def)

theorem recycle_non_diagram_witness:
  "recycle OtherObject freshVoronoi =
     (Inl (Thrown ''Voronoi.recycleDiagram() > Need a Diagram object.''), freshVoronoi) \<and>
   recycle (Number 0) freshVoronoi = (Inr (), freshVoronoi)"
proof -
  have h1: "\<forall>d. OtherObject \<noteq> DiagramObject d" by simp
  have h2: "\<forall>d. Number 0 \<noteq> DiagramObject d" by simp
  from recycle_non_diagram[OF h1, of freshVoronoi] recycle_non_diagram[OF h2, of freshVoronoi]
  show ?thesis by (simp add: zero_number_def)
qed

lemma recycle_diagram: "recycle (DiagramObject d) s = (Inr (), s\<lparr>toRecycle := Some d\<rparr>)"
  by (simp add: recycle_def)

subsection \<open>compute\<close>

lemma newVoronoi_idle: "idle (newVoronoi h)"
  by (simp add: idle_def newVoronoi_def)

lemma reset_idle:
  "idle s \<Longrightarrow>
   reset s = (Inr (), s\<lparr>beachline := Some RBNull, circleEvents := Some RBNull,
                         firstCircleEvent := None, vertices := [], edges := [], cells := []\<rparr>)"
  by (auto simp: idle_def reset_def)

lemma reset_not_idle: "\<not> idle s \<Longrightarrow> reset s = (Inl TypeError, s)"
  by (auto simp: idle_def reset_def RBTree_call_def split: option.splits rbtree.splits)

lemma addBeachsection_frame:
  "siteHeap (snd (addBeachsection st s)) = siteHeap s"
  "cells (snd (addBeachsection st s)) = cells s"
  "beachline (snd (addBeachsection st s)) = beachline s"
  by (auto simp: addBeachsection_def RBTree_call_def createBeachsection_def Let_def
       split: option.splits prod.splits list.splits)

lemma mainLoop_first_site:
  assumes "firstCircleEvent s = None"
  shows "mainLoop (Some st) evs n None s = (Inl TypeError, afterFirstSite st n s)"
  by (subst mainLoop.simps)
     (simp add: siteIsNext_def assms Let_def split_beta afterFirstSite_def addBeachsection_throws)

lemma mainLoop_no_site:
  assumes "firstCircleEvent s = None"
  shows "mainLoop None evs n xs s = (Inr (), s)"
  by (subst mainLoop.simps) (simp add: assms)

lemma afterFirstSite_siteHeap:
  "siteHeap (afterFirstSite st n s) = (siteHeap s)(st := (siteHeap s st)\<lparr>voronoiId := Some n\<rparr>)"
  by (simp add: afterFirstSite_def Let_def addBeachsection_frame createCell_def)

lemma afterFirstSite_cells:
  "cells (afterFirstSite st n s) =
     assignCell n \<lparr>cell_site = st, halfedges = [], closeMe = False\<rparr> (cells s)"
  by (simp add: afterFirstSite_def Let_def addBeachsection_frame createCell_def)

lemma afterFirstSite_idle: "idle s \<Longrightarrow> idle (afterFirstSite st n s)"
  by (simp add: afterFirstSite_def Let_def addBeachsection_frame createCell_def idle_def)

lemma clipEdges_no_edges: "edges s = [] \<Longrightarrow> clipEdges bbox s = (Inr (), s)"
  by (simp add: clipEdges_def)

lemma set_insertSite: "set (insertSite h a xs) = insert a (set xs)"
  by (induction xs) auto

lemma set_sortSites: "set (sortSites h xs) = set xs"
  by (induction xs) (auto simp: sortSites_def set_insertSite)

lemma sortSites_Nil_iff: "sortSites h xs = [] \<longleftrightarrow> xs = []"
  by (metis set_sortSites set_empty)

text \<open>Without sites the call returns the empty diagram.\<close>

lemma compute_no_sites:
  assumes "idle s"
  shows "fst (compute [] bbox s) = Inr \<lparr>dcells = [], dedges = [], dvertices = []\<rparr>"
  using assms
  by (simp add: compute_def reset_idle sortSites_def popSite_def mainLoop_no_site
      clipEdges_no_edges closeCells_def Let_def idle_def mergeRecycled_def split: option.splits)

text \<open>
  With at least one site the call throws in the first iteration of the main loop: the
  first site is never a duplicate, and \<^term>\<open>addBeachsection\<close> throws.
\<close>

lemma compute_sites:
  assumes "idle s" "sites \<noteq> []"
  shows "compute sites bbox s =
     (Inl TypeError,
      afterFirstSite (firstSite (siteHeap s) sites) 0 (mergeRecycled (snd (reset s))))"
proof -
  have ne: "sortSites (siteHeap s) sites \<noteq> []"
    using assms(2) by (simp add: sortSites_Nil_iff)
  have fc: "firstCircleEvent (mergeRecycled (snd (reset s))) = None"
    using assms(1) by (simp add: reset_idle mergeRecycled_def split: option.splits)
  have sh: "siteHeap (mergeRecycled (snd (reset s))) = siteHeap s"
    using assms(1) by (simp add: reset_idle mergeRecycled_def split: option.splits)
  have "compute sites bbox s =
     (case mainLoop (Some (firstSite (siteHeap s) sites))
             (butlast (sortSites (siteHeap s) sites)) 0 None (mergeRecycled (snd (reset s))) of
        (Inl e, s3) \<Rightarrow> (Inl e, s3)
      | (Inr _, s3) \<Rightarrow>
          (case clipEdges bbox s3 of
             (Inl e, s4) \<Rightarrow> (Inl e, s4)
           | (Inr _, s4) \<Rightarrow>
               (case closeCells bbox s4 of
                  (Inl e, s5) \<Rightarrow> (Inl e, s5)
                | (Inr _, s5) \<Rightarrow>
                    (let diagram = \<lparr>dcells = cells s5, dedges = edges s5,
                                    dvertices = vertices s5\<rparr>
                     in case reset s5 of
                          (Inl e, s6) \<Rightarrow> (Inl e, s6)
                        | (Inr _, s6) \<Rightarrow> (Inr diagram, s6)))))"
    unfolding compute_def reset_idle[OF assms(1)] firstSite_def
    using ne sh by (simp add: popSite_def Let_def reset_idle[OF assms(1)])
  also have "\<dots> = (Inl TypeError,
      afterFirstSite (firstSite (siteHeap s) sites) 0 (mergeRecycled (snd (reset s))))"
    by (simp add: mainLoop_first_site[OF fc])
  finally show ?thesis .
qed

lemma compute_not_idle: "\<not> idle s \<Longrightarrow> compute sites bbox s = (Inl TypeError, s)"
  by (simp add: compute_def reset_not_idle)

text \<open>Every call of \<^term>\<open>compute\<close> and of \<^term>\<open>recycle\<close> leaves an idle state idle.\<close>

lemma compute_keeps_idle:
  assumes "idle s"
  shows "idle (snd (compute sites bbox s))"
proof (cases "sites = []")
  case True
  with assms show ?thesis
    by (simp add: compute_def reset_idle sortSites_def popSite_def mainLoop_no_site
        clipEdges_no_edges closeCells_def Let_def idle_def mergeRecycled_def
        split: option.splits)
next
  case False
  have "idle (mergeRecycled (snd (reset s)))"
    using assms by (simp add: reset_idle mergeRecycled_def idle_def split: option.splits)
  then show ?thesis
    by (simp add: compute_sites[OF assms False] afterFirstSite_idle)
qed

lemma recycle_keeps_idle: "idle s \<Longrightarrow> idle (snd (recycle v s))"
  by (cases v) (auto simp: recycle_def idle_def)

text \<open>
  C1. The claim is that \<^verbatim>\<open>compute\<close> returns a valid diagram for zero sites or one site
  in a box with \<open>xl < xr\<close> and \<open>yt < yb\<close>, with one cell equal to the box for one site.
  Without sites it does return the empty diagram (\<open>compute_no_sites\<close>). For the site
  \<open>(1/2, 1/2)\<close> in the unit box, on a new instance, the call throws a TypeError:
  \<^verbatim>\<open>addBeachsection\<close> calls \<^verbatim>\<open>this.beachline.rbInsertSuccessor\<close>, and the tree object
  has no such method.
\<close>

theorem compute_one_site_throws:
  "fst (compute [0] unitBox (newVoronoi (sitesAt [(dbl 1 2, dbl 1 2)]))) = Inl TypeError"
proof -
  have "idle (newVoronoi (sitesAt [(dbl 1 2, dbl 1 2)]))" by (rule newVoronoi_idle)
  then show ?thesis
    by (subst compute_sites) simp_all
qed

text \<open>
  C2. The claim is that of \<open>N\<close> sites with one exact duplicate \<open>N - 1\<close> get a cell and the
  identifiers \<open>0, \<dots>, N - 2\<close>. For the three sites \<open>(1/4, 1/4)\<close>, \<open>(1/2, 1/2)\<close>,
  \<open>(1/2, 1/2)\<close> in the unit box the call throws a TypeError while it handles its first
  site; it returns no diagram, and at the throw there is one cell and one identifier.
\<close>

theorem compute_duplicate_site_throws:
  "fst (compute [0, 1, 2] unitBox
          (newVoronoi (sitesAt [(dbl 1 4, dbl 1 4), (dbl 1 2, dbl 1 2), (dbl 1 2, dbl 1 2)]))) = Inl TypeError \<and>
   length (cells (snd (compute [0, 1, 2] unitBox
          (newVoronoi (sitesAt [(dbl 1 4, dbl 1 4), (dbl 1 2, dbl 1 2), (dbl 1 2, dbl 1 2)]))))) = 1"
proof -
  let ?s = "newVoronoi (sitesAt [(dbl 1 4, dbl 1 4), (dbl 1 2, dbl 1 2), (dbl 1 2, dbl 1 2)])"
  have i: "idle ?s" by (rule newVoronoi_idle)
  have c: "compute [0, 1, 2] unitBox ?s =
     (Inl TypeError,
      afterFirstSite (firstSite (siteHeap ?s) [0, 1, 2]) 0 (mergeRecycled (snd (reset ?s))))"
    by (rule compute_sites[OF i]) simp
  have "cells (mergeRecycled (snd (reset ?s))) = []"
    by (simp add: reset_idle[OF i] mergeRecycled_def split: option.splits)
  then show ?thesis
    unfolding c by (simp add: afterFirstSite_cells assignCell_def)
qed

text \<open>
  The site that the first iteration handles is the only one that a call with sites gives
  an identifier; every other site is left as it was.
\<close>

lemma compute_other_sites:
  assumes "idle s" "sites \<noteq> []" "r \<noteq> firstSite (siteHeap s) sites"
  shows "siteHeap (snd (compute sites bbox s)) r = siteHeap s r"
proof -
  have sh: "siteHeap (mergeRecycled (snd (reset s))) = siteHeap s"
    using assms(1) by (simp add: reset_idle mergeRecycled_def split: option.splits)
  show ?thesis
    using assms(3) by (simp add: compute_sites[OF assms(1,2)] afterFirstSite_siteHeap sh)
qed

text \<open>
  C7. The claim is that two calls of \<^verbatim>\<open>compute\<close> with the same sites and the same box
  give the sites the same identifiers and give congruent polygons, whatever the pools
  hold. On this source no call with a site gives a polygon, and it gives an identifier to
  one site only: on every state of the instance that the class can reach (the beach line
  has no node), for every non-empty array of sites and every box, the call throws the
  TypeError of \<^verbatim>\<open>this.beachline.rbInsertSuccessor\<close>, a second call with the same
  arguments throws it again, and every site but the first of the sweep is left as it was,
  without a cell.
\<close>

theorem compute_twice_throws:
  assumes "idle s" and "sites \<noteq> []"
  shows "fst (compute sites bbox s) = Inl TypeError \<and>
         fst (compute sites bbox (snd (compute sites bbox s))) = Inl TypeError \<and>
         (\<forall>r. r \<noteq> firstSite (siteHeap s) sites \<longrightarrow>
              siteHeap (snd (compute sites bbox s)) r = siteHeap s r) \<and>
         length (cells (snd (compute sites bbox s))) = 1"
proof -
  have i1: "idle (snd (compute sites bbox s))"
    by (rule compute_keeps_idle[OF assms(1)])
  have "cells (mergeRecycled (snd (reset s))) = []"
    using assms(1) by (simp add: reset_idle mergeRecycled_def split: option.splits)
  then have "length (cells (snd (compute sites bbox s))) = 1"
    by (simp add: compute_sites[OF assms] afterFirstSite_cells assignCell_def)
  moreover have "fst (compute sites bbox (snd (compute sites bbox s))) = Inl TypeError"
    by (subst compute_sites[OF i1 assms(2)]) simp
  moreover have "fst (compute sites bbox s) = Inl TypeError"
    by (subst compute_sites[OF assms]) simp
  ultimately show ?thesis
    using compute_other_sites[OF assms, of _ bbox] by simp
qed

text \<open>
  The two sites \<open>(1/4, 1/4)\<close> and \<open>(1/2, 1/2)\<close> in the unit box, on a new instance: both
  calls throw, the site \<open>(1/4, 1/4)\<close> has the identifier \<open>0\<close>, and the site
  \<open>(1/2, 1/2)\<close> has none after the two calls.
\<close>

theorem compute_twice_throws_witness:
  "fst (compute [0, 1] unitBox (newVoronoi (sitesAt [(dbl 1 4, dbl 1 4), (dbl 1 2, dbl 1 2)])))
     = Inl TypeError \<and>
   fst (compute [0, 1] unitBox
          (snd (compute [0, 1] unitBox
                  (newVoronoi (sitesAt [(dbl 1 4, dbl 1 4), (dbl 1 2, dbl 1 2)])))))
     = Inl TypeError \<and>
   voronoiId (siteHeap (snd (compute [0, 1] unitBox
       (newVoronoi (sitesAt [(dbl 1 4, dbl 1 4), (dbl 1 2, dbl 1 2)])))) 0) = Some 0 \<and>
   voronoiId (siteHeap (snd (compute [0, 1] unitBox
       (newVoronoi (sitesAt [(dbl 1 4, dbl 1 4), (dbl 1 2, dbl 1 2)])))) 1) = None"
proof -
  let ?s = "newVoronoi (sitesAt [(dbl 1 4, dbl 1 4), (dbl 1 2, dbl 1 2)])"
  have i: "idle ?s" by (rule newVoronoi_idle)
  have ne: "[0, 1 :: nat] \<noteq> []" by simp
  have f: "firstSite (siteHeap ?s) [0, 1] = 0"
    by (simp add: firstSite_def sortSites_def compareSites_def newVoronoi_def sitesAt_def
        number_eval)
  have sh: "siteHeap (mergeRecycled (snd (reset ?s))) = siteHeap ?s"
    by (simp add: reset_idle[OF i] mergeRecycled_def split: option.splits)
  have id0: "voronoiId (siteHeap (snd (compute [0, 1] unitBox ?s)) 0) = Some 0"
    using compute_sites[OF i ne, of unitBox] f sh by (simp add: afterFirstSite_siteHeap)
  have s1: "siteHeap ?s 1 = \<lparr>sitex = dbl 1 2, sitey = dbl 1 2, voronoiId = None\<rparr>"
    by (simp add: newVoronoi_def sitesAt_def)
  from compute_twice_throws[OF i ne, of unitBox] f id0 s1 show ?thesis
    by simp
qed

subsection \<open>attachCircleEvent\<close>

lemma takeCircleEvent_fst:
  "fst (takeCircleEvent s) = (if circleEventJunkyard s = [] then circleNext s else last (circleEventJunkyard s))"
  by (simp add: takeCircleEvent_def Let_def split: list.splits)

lemma takeCircleEvent_frame:
  "beachHeap (snd (takeCircleEvent s)) = beachHeap s"
  "siteHeap (snd (takeCircleEvent s)) = siteHeap s"
  "circleEvents (snd (takeCircleEvent s)) = circleEvents s"
  "firstCircleEvent (snd (takeCircleEvent s)) = firstCircleEvent s"
  by (simp_all add: takeCircleEvent_def Let_def split: list.splits)

text \<open>
  On every path that takes a circle event the call ends with the TypeError of
  \<^verbatim>\<open>this.circleEvents.rbInsertSuccessor\<close>, in the state that the assignments before it
  have built.
\<close>

lemma attachCircleEvent_unfold:
  assumes prev: "bs_rbPrevious (beachHeap s arc) = Some lArc"
      and nxt: "bs_rbNext (beachHeap s arc) = Some rArc"
  defines "l \<equiv> siteHeap s (bs_site (beachHeap s lArc))"
      and "c \<equiv> siteHeap s (bs_site (beachHeap s arc))"
      and "r \<equiv> siteHeap s (bs_site (beachHeap s rArc))"
  defines "d \<equiv> orientationD l c r"
  defines "ax \<equiv> sitex l - sitex c" and "ay \<equiv> sitey l - sitey c"
      and "cx \<equiv> sitex r - sitex c" and "cy \<equiv> sitey r - sitey c"
  defines "x \<equiv> (cy * (ax * ax + ay * ay) - ay * (cx * cx + cy * cy)) / d"
      and "y \<equiv> (ax * (cx * cx + cy * cy) - cx * (ax * ax + ay * ay)) / d"
  shows "attachCircleEvent arc s =
     (if bs_site (beachHeap s lArc) \<noteq> bs_site (beachHeap s rArc) \<and> \<not> - dbl 2 (10 ^ 12) \<le> d
      then (Inl TypeError,
            attached arc (x + sitex c) (y + sitey c + sqrtn (x * x + y * y)) (y + sitey c)
              (bs_site (beachHeap s arc)) s)
      else (Inr (), s))"
  unfolding attachCircleEvent_def attached_def
  by (simp add: prev nxt Let_def split_beta RBTree_call_def takeCircleEvent_frame
      d_def orientationD_def l_def c_def r_def x_def y_def ax_def ay_def cx_def cy_def
      split: option.splits)

lemma attached_fields:
  "firstCircleEvent (attached arc x y yc cSite s) = firstCircleEvent s"
  "circleEvents (attached arc x y yc cSite s) = circleEvents s"
  "circleEvent (beachHeap (attached arc x y yc cSite s) arc) = Some (fst (takeCircleEvent s))"
  "ce_arc (circleHeap (attached arc x y yc cSite s) (fst (takeCircleEvent s))) = Some arc"
  "ce_x (circleHeap (attached arc x y yc cSite s) (fst (takeCircleEvent s))) = x"
  "ce_y (circleHeap (attached arc x y yc cSite s) (fst (takeCircleEvent s))) = y"
  "ycenter (circleHeap (attached arc x y yc cSite s) (fst (takeCircleEvent s))) = yc"
  by (simp_all add: attached_def Let_def takeCircleEvent_frame)

text \<open>On numbers, \<open>a < b\<close> excludes \<open>b \<le> a\<close>.\<close>

lemma less_not_le:
  fixes a b :: number
  shows "a < b \<Longrightarrow> \<not> b \<le> a"
  by (cases a; cases b) (auto simp: less_eq_number_def Let_def min.commute)

text \<open>
  The test on \<open>d\<close> is a test on doubles. For the sites \<open>(2^27, 2^27 + 1)\<close>, \<open>(0, 0)\<close>
  and \<open>(2^27 + 1, 2^27 + 2)\<close> the exact value of \<open>d\<close> is \<open>-2\<close>; the product
  \<open>(2^27 + 1) * (2^27 + 1)\<close> rounds to \<open>2^54 + 2^28\<close>, the source computes \<open>d = 0\<close>,
  and the call returns without an event.
\<close>

lemma attachCircleEvent_rounds:
  "attachCircleEvent 1
     (beachOf [(num (2 ^ 27), num (2 ^ 27 + 1)), (0, 0), (num (2 ^ 27 + 1), num (2 ^ 27 + 2))])
   = (Inr (),
      beachOf [(num (2 ^ 27), num (2 ^ 27 + 1)), (0, 0), (num (2 ^ 27 + 1), num (2 ^ 27 + 2))])"
proof -
  let ?s = "beachOf [(num (2 ^ 27), num (2 ^ 27 + 1)), (0, 0), (num (2 ^ 27 + 1), num (2 ^ 27 + 2))]"
  have prev: "bs_rbPrevious (beachHeap ?s 1) = Some 0"
    and nxt: "bs_rbNext (beachHeap ?s 1) = Some 2"
    by (simp_all add: beachOf_def arcsInLine_def)
  have d: "orientationD (siteHeap ?s (bs_site (beachHeap ?s 0)))
             (siteHeap ?s (bs_site (beachHeap ?s 1))) (siteHeap ?s (bs_site (beachHeap ?s 2))) = 0"
    by (simp add: beachOf_def arcsInLine_def newVoronoi_def sitesAt_def orientationD_def
        number_eval)
  have "- dbl 2 (10 ^ 12) \<le> (0 :: number)"
    by (simp add: number_eval)
  with d show ?thesis
    unfolding attachCircleEvent_unfold[OF prev nxt] by simp
qed

text \<open>
  C4. The claim is that \<^verbatim>\<open>attachCircleEvent\<close> creates and attaches a circle event if and
  only if the sites of the two neighbours are distinct objects and \<open>d < -2e-12\<close>, with
  \<open>y\<close> the bottom of the circumcircle. For an arc with a left and a right neighbour:
  when the two sites are distinct and \<open>d < -2e-12\<close>, the call takes the event, fills it
  in (\<open>y\<close> is \<open>ycenter\<close> plus the root of \<open>x * x + y * y\<close>), stores it in
  \<^verbatim>\<open>arc.circleEvent\<close>, and then throws a TypeError at
  \<^verbatim>\<open>this.circleEvents.rbInsertSuccessor\<close>: the event never enters the queue, and
  \<^verbatim>\<open>this.firstCircleEvent\<close> is never assigned. The call throws exactly when the sites are
  distinct and \<^verbatim>\<open>d >= -2e-12\<close> fails, and otherwise it returns with the state unchanged.
\<close>

theorem attachCircleEvent_throws:
  assumes prev: "bs_rbPrevious (beachHeap s arc) = Some lArc"
      and nxt: "bs_rbNext (beachHeap s arc) = Some rArc"
  shows
    "let l = siteHeap s (bs_site (beachHeap s lArc));
         c = siteHeap s (bs_site (beachHeap s arc));
         r = siteHeap s (bs_site (beachHeap s rArc));
         d = orientationD l c r;
         distinctSites = (bs_site (beachHeap s lArc) \<noteq> bs_site (beachHeap s rArc));
         ax = sitex l - sitex c; ay = sitey l - sitey c;
         cx = sitex r - sitex c; cy = sitey r - sitey c;
         x = (cy * (ax * ax + ay * ay) - ay * (cx * cx + cy * cy)) / d;
         y = (ax * (cx * cx + cy * cy) - cx * (ax * ax + ay * ay)) / d;
         ev = (if circleEventJunkyard s = [] then circleNext s else last (circleEventJunkyard s));
         s' = snd (attachCircleEvent arc s)
     in (fst (attachCircleEvent arc s) = Inl TypeError
           \<longleftrightarrow> distinctSites \<and> \<not> - dbl 2 (10 ^ 12) \<le> d) \<and>
        (fst (attachCircleEvent arc s) \<noteq> Inl TypeError \<longrightarrow> attachCircleEvent arc s = (Inr (), s)) \<and>
        (distinctSites \<and> d < - dbl 2 (10 ^ 12) \<longrightarrow>
           fst (attachCircleEvent arc s) = Inl TypeError \<and>
           firstCircleEvent s' = firstCircleEvent s \<and>
           circleEvents s' = circleEvents s \<and>
           circleEvent (beachHeap s' arc) = Some ev \<and>
           ce_arc (circleHeap s' ev) = Some arc \<and>
           ce_x (circleHeap s' ev) = x + sitex c \<and>
           ycenter (circleHeap s' ev) = y + sitey c \<and>
           ce_y (circleHeap s' ev) = ycenter (circleHeap s' ev) + sqrtn (x * x + y * y))"
proof -
  note u = attachCircleEvent_unfold[OF prev nxt]
  have ev: "fst (takeCircleEvent s) =
      (if circleEventJunkyard s = [] then circleNext s else last (circleEventJunkyard s))"
    by (rule takeCircleEvent_fst)
  show ?thesis
    unfolding Let_def ev[symmetric]
    by (auto simp: u attached_fields dest: less_not_le)
qed

text \<open>
  The arc over \<open>(0, -5)\<close> between the arcs over \<open>(-5, 0)\<close> and \<open>(5, 0)\<close>, with
  \<open>d = -100\<close>: the event \<open>0\<close> is created with the centre \<open>(0, 0)\<close> and the bottom
  \<open>y = 5\<close>, the call throws, and the queue has no first event.
\<close>

theorem attachCircleEvent_throws_witness:
  "fst (attachCircleEvent 1 beachOfThree) = Inl TypeError \<and>
   firstCircleEvent (snd (attachCircleEvent 1 beachOfThree)) = None \<and>
   circleEvents (snd (attachCircleEvent 1 beachOfThree)) = Some RBNull \<and>
   circleEvent (beachHeap (snd (attachCircleEvent 1 beachOfThree)) 1) = Some 0 \<and>
   ycenter (circleHeap (snd (attachCircleEvent 1 beachOfThree)) 0) = 0 \<and>
   ce_y (circleHeap (snd (attachCircleEvent 1 beachOfThree)) 0) = num 5"
proof -
  have prev: "bs_rbPrevious (beachHeap beachOfThree 1) = Some 0"
    and nxt: "bs_rbNext (beachHeap beachOfThree 1) = Some 2"
    by (simp_all add: beachOfThree_def beachOf_def arcsInLine_def)
  have sites: "bs_site (beachHeap beachOfThree 0) = 0" "bs_site (beachHeap beachOfThree 1) = 1"
    "bs_site (beachHeap beachOfThree 2) = 2"
    "siteHeap beachOfThree 0 = \<lparr>sitex = num (- 5), sitey = 0, voronoiId = None\<rparr>"
    "siteHeap beachOfThree 1 = \<lparr>sitex = 0, sitey = num (- 5), voronoiId = None\<rparr>"
    "siteHeap beachOfThree 2 = \<lparr>sitex = num 5, sitey = 0, voronoiId = None\<rparr>"
    by (simp_all add: beachOfThree_def beachOf_def arcsInLine_def newVoronoi_def sitesAt_def)
  have heap: "circleEventJunkyard beachOfThree = []" "circleNext beachOfThree = 0"
    "firstCircleEvent beachOfThree = None" "circleEvents beachOfThree = Some RBNull"
    by (simp_all add: beachOfThree_def beachOf_def newVoronoi_def)
  from attachCircleEvent_throws[OF prev nxt] show ?thesis
    unfolding sites heap
    by (simp add: orientationD_def number_eval)
qed

subsection \<open>Vertices are not moved\<close>

lemma createVertex_fst:
  "fst (createVertex x y s) =
     (if vertexJunkyard s = [] then vertexNext s else last (vertexJunkyard s))"
  by (simp add: createVertex_def Let_def split: list.splits)

lemma createVertex_fields:
  "vertices (snd (createVertex x y s)) = vertices s @ [fst (createVertex x y s)]"
  "vertexHeap (snd (createVertex x y s)) =
     (vertexHeap s)(fst (createVertex x y s) := \<lparr>vx = x, vy = y\<rparr>)"
  "vertexJunkyard (snd (createVertex x y s)) = butlast (vertexJunkyard s)"
  "vertexNext (snd (createVertex x y s)) =
     (if vertexJunkyard s = [] then Suc (vertexNext s) else vertexNext s)"
  "edges (snd (createVertex x y s)) = edges s"
  "cells (snd (createVertex x y s)) = cells s"
  "edgeHeap (snd (createVertex x y s)) = edgeHeap s"
  "siteHeap (snd (createVertex x y s)) = siteHeap s"
  by (simp_all add: createVertex_def Let_def split: list.splits)

lemma createVertex_fresh:
  assumes "poolOk s"
  shows "fst (createVertex x y s) \<notin> set (vertices s)"
proof (cases "vertexJunkyard s = []")
  case True
  with assms show ?thesis
    by (auto simp: createVertex_fst poolOk_def)
next
  case False
  then have "last (vertexJunkyard s) \<in> set (vertexJunkyard s)" by simp
  moreover have "set (vertexJunkyard s) \<inter> set (vertices s) = {}"
    using assms by (simp add: poolOk_def)
  ultimately have "last (vertexJunkyard s) \<notin> set (vertices s)" by blast
  with False show ?thesis
    by (simp add: createVertex_fst)
qed

lemma createVertex_poolOk:
  assumes "poolOk s"
  shows "poolOk (snd (createVertex x y s))"
proof (cases "vertexJunkyard s = []")
  case True
  with assms show ?thesis
    by (auto simp: poolOk_def createVertex_fields createVertex_fst less_Suc_eq)
next
  case False
  then obtain js j where j: "vertexJunkyard s = js @ [j]"
    by (metis append_butlast_last_id)
  with assms show ?thesis
    by (auto simp: poolOk_def createVertex_fields createVertex_fst)
qed

lemma createVertex_keeps:
  assumes "poolOk s" "v \<in> set (vertices s)"
  shows "vertexHeap (snd (createVertex x y s)) v = vertexHeap s v"
  using createVertex_fresh[OF assms(1), of x y] assms(2)
  by (auto simp: createVertex_fields)

lemma setCloseMe_fields:
  "vertices (snd (setCloseMe i s)) = vertices s"
  "vertexHeap (snd (setCloseMe i s)) = vertexHeap s"
  "vertexJunkyard (snd (setCloseMe i s)) = vertexJunkyard s"
  "vertexNext (snd (setCloseMe i s)) = vertexNext s"
  "edges (snd (setCloseMe i s)) = edges s"
  "length (cells (snd (setCloseMe i s))) = length (cells s)"
  "edgeHeap (snd (setCloseMe i s)) = edgeHeap s"
  "siteHeap (snd (setCloseMe i s)) = siteHeap s"
  by (simp_all add: setCloseMe_def split: option.splits)

lemma setCloseMe_poolOk: "poolOk (snd (setCloseMe i s)) = poolOk s"
  by (simp add: poolOk_def setCloseMe_fields)

lemma grows_refl: "poolOk s \<Longrightarrow> grows s s"
  by (simp add: grows_def)

lemma grows_trans: "grows s s' \<Longrightarrow> grows s' s'' \<Longrightarrow> grows s s''"
  by (auto simp: grows_def)

lemma grows_createVertex: "poolOk s \<Longrightarrow> grows s (snd (createVertex x y s))"
  by (auto simp: grows_def createVertex_poolOk createVertex_keeps createVertex_fields(1))

lemma grows_setCloseMe: "poolOk s \<Longrightarrow> grows s (snd (setCloseMe i s))"
  by (simp add: grows_def setCloseMe_poolOk setCloseMe_fields)

lemma grows_edgeHeap:
  "grows s s' \<Longrightarrow> grows s (s'\<lparr>edgeHeap := h\<rparr>)"
  by (simp add: grows_def poolOk_def)

lemma grows_poolOk: "grows s s' \<Longrightarrow> poolOk s'"
  by (simp add: grows_def)

lemma grows_step:
  "grows s s' \<Longrightarrow> grows s (snd (createVertex x y s'))"
  "grows s s' \<Longrightarrow> grows s (snd (setCloseMe i s'))"
  "grows s s' \<Longrightarrow> grows s (s'\<lparr>edgeHeap := h\<rparr>)"
  "grows s s' \<Longrightarrow> grows s (s'\<lparr>edges := es\<rparr>)"
proof -
  assume g: "grows s s'"
  show "grows s (snd (createVertex x y s'))"
    by (rule grows_trans[OF g grows_createVertex[OF grows_poolOk[OF g]]])
  show "grows s (snd (setCloseMe i s'))"
    by (rule grows_trans[OF g grows_setCloseMe[OF grows_poolOk[OF g]]])
  show "grows s (s'\<lparr>edgeHeap := h\<rparr>)"
    using g by (simp add: grows_def poolOk_def)
  show "grows s (s'\<lparr>edges := es\<rparr>)"
    using g by (simp add: grows_def poolOk_def)
qed

lemma markCells_snd:
  "snd (markCells e s) = 
     (case setCloseMe (voronoiId (siteHeap s (lSite (edgeHeap s e)))) s of
        (Inl err, s1) \<Rightarrow> s1
      | (Inr _, s1) \<Rightarrow>
          (case rSite (edgeHeap s1 e) of
             None \<Rightarrow> s1
           | Some rs \<Rightarrow> snd (setCloseMe (voronoiId (siteHeap s1 rs)) s1)))"
  by (simp add: markCells_def split: prod.splits sum.splits option.splits)

lemma grows_markCells: "grows s s' \<Longrightarrow> grows s (snd (markCells e s'))"
  unfolding markCells_snd
  by (simp add: split_beta grows_step split: sum.splits option.splits)

lemma grows_endAt:
  assumes "grows s0 s"
  shows "grows s0 (endAt e start stop s)"
  unfolding endAt_def
  by (simp add: Let_def split_beta assms grows_step split: option.splits)

lemma grows_connectEdge:
  assumes "grows s0 s"
  shows "grows s0 (snd (connectEdge e bbox s))"
  unfolding connectEdge_def
  by (simp add: Let_def split_beta assms grows_step grows_endAt
        split: option.splits sum.splits connectPlan.splits)

lemma grows_clipEdge:
  assumes "grows s0 s"
  shows "grows s0 (snd (clipEdge e bbox s))"
  unfolding clipEdge_def
  by (simp add: Let_def split_beta assms grows_step grows_markCells
        split: option.splits sum.splits)

lemma edgeToRemove_snd:
  "snd (edgeToRemove e bbox s) =
     (if fst (connectEdge e bbox s) = Inr True
      then snd (clipEdge e bbox (snd (connectEdge e bbox s)))
      else snd (connectEdge e bbox s))"
  by (simp add: edgeToRemove_def split_beta split: sum.splits bool.splits)

lemma grows_edgeToRemove:
  assumes "grows s0 s"
  shows "grows s0 (snd (edgeToRemove e bbox s))"
  by (simp add: edgeToRemove_snd grows_clipEdge grows_connectEdge assms)

lemma grows_removeEdgeAt:
  assumes "grows s0 s"
  shows "grows s0 (removeEdgeAt i s)"
  using assms by (simp add: removeEdgeAt_def Let_def grows_def poolOk_def)

lemma grows_clipEdgesFrom:
  assumes "grows s0 s"
  shows "grows s0 (snd (clipEdgesFrom i bbox s))"
  using assms
proof (induction i arbitrary: s)
  case 0
  then show ?case by simp
next
  case (Suc i)
  have 1: "grows s0 (snd (edgeToRemove (edges s ! i) bbox s))"
    by (rule grows_edgeToRemove[OF Suc.prems])
  have 2: "grows s0 (removeEdgeAt i (snd (edgeToRemove (edges s ! i) bbox s)))"
    by (rule grows_removeEdgeAt[OF 1])
  show ?case
    using Suc.IH[OF 1] Suc.IH[OF 2] 1 Suc.prems
    by (simp add: split_beta split: sum.splits bool.splits)
qed

lemma grows_clipEdges:
  assumes "poolOk s"
  shows "grows s (snd (clipEdges bbox s))"
  unfolding clipEdges_def by (rule grows_clipEdgesFrom[OF grows_refl[OF assms]])

lemma clipEdge_moves:
  assumes ok: "poolOk s"
    and a: "va (edgeHeap s e) = Some a" and b: "vb (edgeHeap s e) = Some b"
    and t: "clipParams bbox (vertexHeap s a) (vertexHeap s b) = Some (t0, t1)"
  defines "s' \<equiv> snd (clipEdge e bbox s)"
  defines "ax \<equiv> vx (vertexHeap s a)" and "ay \<equiv> vy (vertexHeap s a)"
  defines "dx \<equiv> vx (vertexHeap s b) - vx (vertexHeap s a)"
      and "dy \<equiv> vy (vertexHeap s b) - vy (vertexHeap s a)"
  shows "(if 0 < t0
          then \<exists>a'. va (edgeHeap s' e) = Some a' \<and> a' \<notin> set (vertices s) \<and> a' \<in> set (vertices s') \<and>
                 vertexHeap s' a' = \<lparr>vx = ax + t0 * dx, vy = ay + t0 * dy\<rparr>
          else va (edgeHeap s' e) = Some a) \<and>
         (if t1 < 1
          then \<exists>b'. vb (edgeHeap s' e) = Some b' \<and> b' \<notin> set (vertices s) \<and> b' \<in> set (vertices s') \<and>
                 vertexHeap s' b' = \<lparr>vx = ax + t1 * dx, vy = ay + t1 * dy\<rparr>
          else vb (edgeHeap s' e) = Some b)"
proof -
  define s1 where "s1 = (if t0 > 0 then
                               (let (v, s') = createVertex (ax + t0 * dx) (ay + t0 * dy) s
                                in s'\<lparr>edgeHeap := (edgeHeap s')
                                        (e := (edgeHeap s' e)\<lparr>va := Some v\<rparr>)\<rparr>)
                             else s)"
  define s2 where "s2 = (if t1 < 1 then
                               (let (v, s') = createVertex (ax + t1 * dx) (ay + t1 * dy) s1
                                in s'\<lparr>edgeHeap := (edgeHeap s')
                                        (e := (edgeHeap s' e)\<lparr>vb := Some v\<rparr>)\<rparr>)
                             else s1)"
  have s': "s' = (if t0 > 0 \<or> t1 < 1 then snd (markCells e s2) else s2)"
    unfolding s'_def clipEdge_def
    by (simp add: a b t Let_def split_beta s1_def s2_def ax_def ay_def dx_def dy_def
        split: sum.splits)
  have mc: "edgeHeap (snd (markCells e z)) = edgeHeap z"
    "vertexHeap (snd (markCells e z)) = vertexHeap z"
    "vertices (snd (markCells e z)) = vertices z" for z
    by (simp_all add: markCells_snd split_beta setCloseMe_fields split: sum.splits option.splits)
  have s'_fields: "edgeHeap s' = edgeHeap s2" "vertexHeap s' = vertexHeap s2"
    "vertices s' = vertices s2"
    by (simp_all add: s' mc)
  have g1: "poolOk s1"
    using ok by (simp add: s1_def split_beta createVertex_poolOk poolOk_def[of "_\<lparr>edgeHeap := _\<rparr>"]
          poolOk_def[symmetric])
  define v0 where "v0 = fst (createVertex (ax + t0 * dx) (ay + t0 * dy) s)"
  define v1 where "v1 = fst (createVertex (ax + t1 * dx) (ay + t1 * dy) s1)"
  have f0: "v0 \<notin> set (vertices s)"
    unfolding v0_def by (rule createVertex_fresh[OF ok])
  have f1: "v1 \<notin> set (vertices s1)"
    unfolding v1_def by (rule createVertex_fresh[OF g1])
  have s1_fields:
    "vertices s1 = (if 0 < t0 then vertices s @ [v0] else vertices s)"
    "vertexHeap s1 = (if 0 < t0 then (vertexHeap s)(v0 := \<lparr>vx = ax + t0 * dx, vy = ay + t0 * dy\<rparr>)
                      else vertexHeap s)"
    "va (edgeHeap s1 e) = (if 0 < t0 then Some v0 else Some a)"
    "vb (edgeHeap s1 e) = Some b"
    by (simp_all add: s1_def split_beta createVertex_fields v0_def a b)
  have s2_fields:
    "vertices s2 = (if t1 < 1 then vertices s1 @ [v1] else vertices s1)"
    "vertexHeap s2 = (if t1 < 1 then (vertexHeap s1)(v1 := \<lparr>vx = ax + t1 * dx, vy = ay + t1 * dy\<rparr>)
                      else vertexHeap s1)"
    "va (edgeHeap s2 e) = va (edgeHeap s1 e)"
    "vb (edgeHeap s2 e) = (if t1 < 1 then Some v1 else Some b)"
    by (simp_all add: s2_def split_beta createVertex_fields v1_def s1_fields)
  have f1': "v1 \<notin> set (vertices s)" "0 < t0 \<Longrightarrow> v1 \<noteq> v0"
    using f1 by (auto simp: s1_fields split: if_splits)
  show ?thesis
    using f0 f1'
    by (auto simp: s'_fields s2_fields s1_fields)
qed

lemma grows_removeBeachsection:
  assumes "poolOk s"
  shows "grows s (snd (removeBeachsection arc s))"
proof -
  have d: "grows s (snd (detachBeachsection b z))" if "grows s z" for b z
    using that
    by (simp add: detachBeachsection_def detachCircleEvent_def RBTree_call_def Let_def
        split_beta grows_def poolOk_def split: option.splits sum.splits)
  show ?thesis
    by (simp add: removeBeachsection_def split_beta d grows_step grows_refl[OF assms]
        split: option.splits)
qed

text \<open>
  C5. In a state whose vertex pool is in order, no function that creates vertices
  (\<^verbatim>\<open>createVertex\<close>, \<^verbatim>\<open>removeBeachsection\<close>, \<^verbatim>\<open>connectEdge\<close>, \<^verbatim>\<open>clipEdge\<close>,
  \<^verbatim>\<open>clipEdges\<close>) changes the coordinates of a vertex that is in \<^verbatim>\<open>this.vertices\<close>,
  and each leaves the pool in order, so that this holds along any sequence of them.
  In particular, when \<^verbatim>\<open>clipEdge\<close> finds the clip parameters \<open>t0\<close> and \<open>t1\<close>: with
  \<open>t0 > 0\<close> the start point of the edge becomes a vertex that was not in
  \<^verbatim>\<open>this.vertices\<close> before and that has the clipped coordinates, and otherwise the start
  point stays; the same holds for \<open>t1 < 1\<close> and the end point.
\<close>

theorem vertex_coordinates_never_mutated:
  assumes "poolOk s" and "v \<in> set (vertices s)"
  shows "vertexHeap (snd (createVertex x y s)) v = vertexHeap s v \<and>
         vertexHeap (snd (removeBeachsection arc s)) v = vertexHeap s v \<and>
         vertexHeap (snd (connectEdge e bbox s)) v = vertexHeap s v \<and>
         vertexHeap (snd (clipEdge e bbox s)) v = vertexHeap s v \<and>
         vertexHeap (snd (clipEdges bbox s)) v = vertexHeap s v \<and>
         poolOk (snd (createVertex x y s)) \<and> poolOk (snd (removeBeachsection arc s)) \<and>
         poolOk (snd (connectEdge e bbox s)) \<and> poolOk (snd (clipEdge e bbox s)) \<and>
         poolOk (snd (clipEdges bbox s)) \<and>
         (va (edgeHeap s e) = Some a \<longrightarrow> vb (edgeHeap s e) = Some b \<longrightarrow>
            clipParams bbox (vertexHeap s a) (vertexHeap s b) = Some (t0, t1) \<longrightarrow>
            (if 0 < t0
             then \<exists>a'. va (edgeHeap (snd (clipEdge e bbox s)) e) = Some a' \<and>
                    a' \<notin> set (vertices s) \<and> a' \<in> set (vertices (snd (clipEdge e bbox s))) \<and>
                    vertexHeap (snd (clipEdge e bbox s)) a' =
                      \<lparr>vx = vx (vertexHeap s a) + t0 * (vx (vertexHeap s b) - vx (vertexHeap s a)),
                       vy = vy (vertexHeap s a) + t0 * (vy (vertexHeap s b) - vy (vertexHeap s a))\<rparr>
             else va (edgeHeap (snd (clipEdge e bbox s)) e) = Some a) \<and>
            (if t1 < 1
             then \<exists>b'. vb (edgeHeap (snd (clipEdge e bbox s)) e) = Some b' \<and>
                    b' \<notin> set (vertices s) \<and> b' \<in> set (vertices (snd (clipEdge e bbox s))) \<and>
                    vertexHeap (snd (clipEdge e bbox s)) b' =
                      \<lparr>vx = vx (vertexHeap s a) + t1 * (vx (vertexHeap s b) - vx (vertexHeap s a)),
                       vy = vy (vertexHeap s a) + t1 * (vy (vertexHeap s b) - vy (vertexHeap s a))\<rparr>
             else vb (edgeHeap (snd (clipEdge e bbox s)) e) = Some b))"
proof -
  note g = grows_createVertex[OF assms(1), of x y] grows_removeBeachsection[OF assms(1), of arc]
    grows_connectEdge[OF grows_refl[OF assms(1)], of e bbox]
    grows_clipEdge[OF grows_refl[OF assms(1)], of e bbox]
    grows_clipEdges[OF assms(1), of bbox]
  have frame: "vertexHeap z v = vertexHeap s v \<and> poolOk z" if "grows s z" for z
    using that assms(2) by (simp add: grows_def)
  show ?thesis
    using g[THEN frame] clipEdge_moves[OF assms(1), of e a b bbox t0 t1]
    by simp
qed

theorem vertex_coordinates_never_mutated_witness:
  "vertexHeap (snd (clipEdge 0 unitBox clipExample)) 0 = \<lparr>vx = - 1, vy = dbl 1 2\<rparr> \<and>
   va (edgeHeap (snd (clipEdge 0 unitBox clipExample)) 0) = Some 5 \<and>
   vertexHeap (snd (clipEdge 0 unitBox clipExample)) 5 = \<lparr>vx = 0, vy = dbl 1 2\<rparr> \<and>
   vb (edgeHeap (snd (clipEdge 0 unitBox clipExample)) 0) = Some 1"
proof -
  have ok: "poolOk clipExample"
    by (simp add: poolOk_def clipExample_def)
  have v: "0 \<in> set (vertices clipExample)"
    by (simp add: clipExample_def)
  have h: "vertexHeap clipExample 0 = \<lparr>vx = - 1, vy = dbl 1 2\<rparr>"
    "vertexHeap clipExample 1 = \<lparr>vx = dbl 1 2, vy = dbl 1 2\<rparr>"
    "va (edgeHeap clipExample 0) = Some 0" "vb (edgeHeap clipExample 0) = Some 1"
    "vertices clipExample = [0, 1]"
    by (simp_all add: clipExample_def)
  have t: "clipParams unitBox (vertexHeap clipExample 0) (vertexHeap clipExample 1) = Some (dbl 2 3, 1)"
    unfolding h by (simp add: clipParams_def clipLow_def clipHigh_def unitBox_def number_eval)
  have new: "fst (createVertex x y clipExample) = 5" for x y
    by (simp add: createVertex_fst clipExample_def)
  from vertex_coordinates_never_mutated[OF ok v, of 0 0 None 0 unitBox 0 1 "dbl 2 3" 1]
  have keep: "vertexHeap (snd (clipEdge 0 unitBox clipExample)) 0 = vertexHeap clipExample 0"
    and moved: "(\<exists>a'. va (edgeHeap (snd (clipEdge 0 unitBox clipExample)) 0) = Some a' \<and>
                    a' \<notin> set (vertices clipExample) \<and>
                    a' \<in> set (vertices (snd (clipEdge 0 unitBox clipExample))) \<and>
                    vertexHeap (snd (clipEdge 0 unitBox clipExample)) a' = \<lparr>vx = 0, vy = dbl 1 2\<rparr>) \<and>
                vb (edgeHeap (snd (clipEdge 0 unitBox clipExample)) 0) = Some 1"
    using h t by (simp_all add: number_eval)
  have "va (edgeHeap (snd (clipEdge 0 unitBox clipExample)) 0) = Some 5"
    using h t
    by (simp add: clipEdge_def Let_def split_beta new markCells_snd setCloseMe_fields
        createVertex_fields number_eval split: sum.splits option.splits)
  with keep moved h show ?thesis by auto
qed


subsection \<open>connectEdge\<close>

lemma setCloseMe_ok:
  "i < length (cells s) \<Longrightarrow>
   setCloseMe (Some i) s = (Inr (), s\<lparr>cells := (cells s)[i := (cells s ! i)\<lparr>closeMe := True\<rparr>]\<rparr>)"
  by (simp add: setCloseMe_def)

text \<open>
  C9. With \<^verbatim>\<open>vb\<close> set, \<^verbatim>\<open>connectEdge\<close> returns \<^verbatim>\<open>true\<close> and leaves the whole state
  as it is: the edge, the vertices, the cells. With \<^verbatim>\<open>vb\<close> unset, for an edge between
  two sites that have cells, it returns \<^verbatim>\<open>true\<close> or \<^verbatim>\<open>false\<close> as the geometry decides,
  and in both cases the array of cells is the old one with the cells of the two sites
  marked.
\<close>

theorem connectEdge_closeMe:
  "(vb (edgeHeap s e) \<noteq> None \<longrightarrow> connectEdge e bbox s = (Inr True, s)) \<and>
   (vb (edgeHeap s e) = None \<longrightarrow> rSite (edgeHeap s e) = Some rs \<longrightarrow>
    voronoiId (siteHeap s (lSite (edgeHeap s e))) = Some i \<longrightarrow>
    voronoiId (siteHeap s rs) = Some j \<longrightarrow> i < length (cells s) \<longrightarrow> j < length (cells s) \<longrightarrow>
      fst (connectEdge e bbox s) =
        Inr (connectGeometry bbox (siteHeap s (lSite (edgeHeap s e))) (siteHeap s rs)
               (map_option (vertexHeap s) (va (edgeHeap s e))) \<noteq> Reject) \<and>
      cells (snd (connectEdge e bbox s)) = marked i j (cells s) \<and>
      closeMe (cells (snd (connectEdge e bbox s)) ! i) \<and>
      closeMe (cells (snd (connectEdge e bbox s)) ! j))"
proof -
  have m: "closeMe (marked i j cs ! i) \<and> closeMe (marked i j cs ! j)"
    if "i < length cs" "j < length cs" for cs
    using that by (cases "i = j") (simp_all add: marked_def Let_def)
  have set: "connectEdge e bbox s = (Inr True, s)" if "vb (edgeHeap s e) \<noteq> None"
    using that by (auto simp: connectEdge_def)
  have unset: "fst (connectEdge e bbox s) =
        Inr (connectGeometry bbox (siteHeap s (lSite (edgeHeap s e))) (siteHeap s rs)
               (map_option (vertexHeap s) (va (edgeHeap s e))) \<noteq> Reject) \<and>
      cells (snd (connectEdge e bbox s)) = marked i j (cells s)"
    if "vb (edgeHeap s e) = None" "rSite (edgeHeap s e) = Some rs"
      "voronoiId (siteHeap s (lSite (edgeHeap s e))) = Some i"
      "voronoiId (siteHeap s rs) = Some j" "i < length (cells s)" "j < length (cells s)"
    unfolding connectEdge_def
    using that
    by (simp add: Let_def split_beta setCloseMe_ok createVertex_fields marked_def endAt_def
          split: option.splits connectPlan.splits)
  show ?thesis
    using set unset m[of "cells s"] by simp
qed

theorem connectEdge_closeMe_witness:
  "fst (connectEdge 0 unitBox connectExample) = Inr False \<and>
   closeMe (cells (snd (connectEdge 0 unitBox connectExample)) ! 0) \<and>
   closeMe (cells (snd (connectEdge 0 unitBox connectExample)) ! 1) \<and>
   connectEdge 0 unitBox clipExample = (Inr True, clipExample)"
proof -
  have pre: "vb (edgeHeap connectExample 0) = None" "rSite (edgeHeap connectExample 0) = Some 1"
    "voronoiId (siteHeap connectExample (lSite (edgeHeap connectExample 0))) = Some 0"
    "voronoiId (siteHeap connectExample 1) = Some 1"
    "0 < length (cells connectExample)" "1 < length (cells connectExample)"
    by (simp_all add: connectExample_def newVoronoi_def sitesWithIds_def)
  have geo: "connectGeometry unitBox (siteHeap connectExample (lSite (edgeHeap connectExample 0)))
      (siteHeap connectExample 1)
      (map_option (vertexHeap connectExample) (va (edgeHeap connectExample 0))) = Reject"
    by (simp add: connectExample_def newVoronoi_def sitesWithIds_def sitesAt_def
        connectGeometry_def unitBox_def number_eval)
  have pre2: "vb (edgeHeap clipExample 0) \<noteq> None"
    by (simp add: clipExample_def)
  from connectEdge_closeMe[of connectExample 0 unitBox 1 0 1]
    connectEdge_closeMe[of clipExample 0 unitBox]
  show ?thesis
    using pre geo pre2 by (simp add: marked_def Let_def connectExample_def)
qed


subsection \<open>clipEdges\<close>

lemma worksOn_refl: "poolOk s \<Longrightarrow> worksOn e s s"
  by (simp add: worksOn_def grows_refl)

lemma worksOn_trans: "worksOn e s s' \<Longrightarrow> worksOn e s' s'' \<Longrightarrow> worksOn e s s''"
  unfolding worksOn_def using grows_trans by auto

lemma endAt_fields:
  "edges (endAt e st q z) = edges z"
  "cells (endAt e st q z) = cells z"
  "siteHeap (endAt e st q z) = siteHeap z"
  "e' \<noteq> e \<Longrightarrow> edgeHeap (endAt e st q z) e' = edgeHeap z e'"
  "lSite (edgeHeap (endAt e st q z) e) = lSite (edgeHeap z e)"
  "rSite (edgeHeap (endAt e st q z) e) = rSite (edgeHeap z e)"
  by (simp_all add: endAt_def Let_def split_beta createVertex_fields split: option.splits)

lemma worksOn_endAt: "poolOk z \<Longrightarrow> worksOn e z (endAt e st q z)"
  by (simp add: worksOn_def endAt_fields grows_endAt grows_refl)

lemma createVertex_in: "fst (createVertex x y s) \<in> set (vertices (snd (createVertex x y s)))"
  by (simp add: createVertex_fields)

lemma endAt_ends:
  assumes ok: "poolOk z"
    and a: "case va (edgeHeap z e) of None \<Rightarrow> True | Some a \<Rightarrow> a \<in> set (vertices z)"
    and st: "st = None \<longrightarrow> va (edgeHeap z e) \<noteq> None"
  shows "endsOf (endAt e st q z) e =
     Some (case st of Some p \<Rightarrow> vertexAt p | None \<Rightarrow> vertexHeap z (the (va (edgeHeap z e))),
           vertexAt q)"
proof (cases st)
  case None
  with st obtain a0 where a0: "va (edgeHeap z e) = Some a0" by auto
  with a have in0: "a0 \<in> set (vertices z)" by simp
  have fr: "fst (createVertex (fst q) (snd q) z) \<noteq> a0"
    using createVertex_fresh[OF ok, of "fst q" "snd q"] in0 by auto
  show ?thesis
    using fr in0
    by (simp add: None a0 endsOf_def endAt_def Let_def split_beta createVertex_fields vertexAt_def)
next
  case (Some p)
  define z1 where "z1 = snd (createVertex (fst p) (snd p) z)"
  define v1 where "v1 = fst (createVertex (fst p) (snd p) z)"
  have ok1: "poolOk z1" unfolding z1_def by (rule createVertex_poolOk[OF ok])
  have in1: "v1 \<in> set (vertices z1)" unfolding z1_def v1_def by (rule createVertex_in)
  have fr: "fst (createVertex (fst q) (snd q) z1) \<noteq> v1"
    using createVertex_fresh[OF ok1, of "fst q" "snd q"] in1 by auto
  have h1: "vertexHeap z1 v1 = vertexAt p"
    by (simp add: z1_def v1_def createVertex_fields vertexAt_def)
  show ?thesis
    using fr in1 h1
    by (simp add: Some endsOf_def endAt_def Let_def split_beta createVertex_fields vertexAt_def
        z1_def[symmetric] v1_def[symmetric])
qed

lemma hasCellE:
  assumes "hasCell s x"
  obtains i where "voronoiId (siteHeap s x) = Some i" "i < length (cells s)"
  using assms by (auto simp: hasCell_def split: option.splits)

lemma connectGeometry_no_start:
  "connectGeometry bbox l r None \<noteq> Connect None q"
  by (simp add: connectGeometry_def viaSide_def Let_def)

lemma connectEdge_unset:
  assumes "vb (edgeHeap s e) = None" "rSite (edgeHeap s e) = Some rs"
    and "voronoiId (siteHeap s (lSite (edgeHeap s e))) = Some i"
    and "voronoiId (siteHeap s rs) = Some j" "i < length (cells s)" "j < length (cells s)"
  shows "connectEdge e bbox s =
     (case connectGeometry bbox (siteHeap s (lSite (edgeHeap s e))) (siteHeap s rs)
              (map_option (vertexHeap s) (va (edgeHeap s e))) of
        Reject \<Rightarrow> (Inr False, s\<lparr>cells := marked i j (cells s)\<rparr>)
      | Connect st q \<Rightarrow> (Inr True, endAt e st q (s\<lparr>cells := marked i j (cells s)\<rparr>)))"
  unfolding connectEdge_def
  using assms
  by (simp add: Let_def split_beta setCloseMe_ok marked_def split: connectPlan.splits)

lemma worksOn_cells:
  "poolOk s \<Longrightarrow> length cs = length (cells s) \<Longrightarrow> worksOn e s (s\<lparr>cells := cs\<rparr>)"
  by (simp add: worksOn_def grows_def poolOk_def)

lemma length_marked: "length (marked i j cs) = length cs"
  by (simp add: marked_def Let_def)

lemma connectEdge_view:
  fixes bbox :: BBox
  assumes ok: "poolOk s" and eok: "edgeOk s e"
  defines "ends \<equiv> connectedOf bbox s e"
  shows "fst (connectEdge e bbox s) = Inr (ends \<noteq> None) \<and>
         worksOn e s (snd (connectEdge e bbox s)) \<and>
         (ends \<noteq> None \<longrightarrow> endsOf (snd (connectEdge e bbox s)) e = ends)"
proof (cases "vb (edgeHeap s e)")
  case (Some b0)
  with eok obtain a0 rs where a0: "va (edgeHeap s e) = Some a0"
    and ins: "a0 \<in> set (vertices s)" "b0 \<in> set (vertices s)"
    and rs: "rSite (edgeHeap s e) = Some rs"
    by (auto simp: edgeOk_def split: option.splits)
  have c: "connectEdge e bbox s = (Inr True, s)"
    by (simp add: connectEdge_def Some)
  show ?thesis
    by (simp add: c ends_def connectedOf_def rs connectedEnds_def Some a0 worksOn_refl[OF ok]
        endsOf_def ins)
next
  case None
  from eok obtain rs where rs: "rSite (edgeHeap s e) = Some rs" and hr: "hasCell s rs"
    and hl: "hasCell s (lSite (edgeHeap s e))"
    and av: "case va (edgeHeap s e) of None \<Rightarrow> True | Some a \<Rightarrow> a \<in> set (vertices s)"
    by (auto simp: edgeOk_def split: option.splits)
  from hl obtain i where i: "voronoiId (siteHeap s (lSite (edgeHeap s e))) = Some i" "i < length (cells s)"
    by (rule hasCellE)
  from hr obtain j where j: "voronoiId (siteHeap s rs) = Some j" "j < length (cells s)"
    by (rule hasCellE)
  define sm where "sm = s\<lparr>cells := marked i j (cells s)\<rparr>"
  define plan where "plan = connectGeometry bbox (siteHeap s (lSite (edgeHeap s e))) (siteHeap s rs)
              (map_option (vertexHeap s) (va (edgeHeap s e)))"
  note c = connectEdge_unset[OF None rs i(1) j(1) i(2) j(2), of bbox, folded sm_def plan_def]
  have wm: "worksOn e s sm"
    unfolding sm_def by (rule worksOn_cells[OF ok]) (simp add: length_marked)
  have okm: "poolOk sm"
    using ok by (simp add: sm_def poolOk_def)
  show ?thesis
  proof (cases plan)
    case Reject
    then show ?thesis
      by (simp add: c ends_def connectedOf_def connectedEnds_def None rs plan_def[symmetric] wm)
  next
    case (Connect st q)
    have stv: "st = None \<longrightarrow> va (edgeHeap sm e) \<noteq> None"
    proof (cases "va (edgeHeap s e)")
      case None
      with Connect have "connectGeometry bbox (siteHeap s (lSite (edgeHeap s e))) (siteHeap s rs) None
          = Connect st q"
        by (simp add: plan_def)
      with connectGeometry_no_start[of bbox _ _ q] have "st \<noteq> None"
        by metis
      then show ?thesis by blast
    next
      case (Some a)
      then show ?thesis by (simp add: sm_def)
    qed
    have avm: "case va (edgeHeap sm e) of None \<Rightarrow> True | Some a \<Rightarrow> a \<in> set (vertices sm)"
      using av by (simp add: sm_def split: option.splits)
    have w: "worksOn e s (endAt e st q sm)"
      by (rule worksOn_trans[OF wm worksOn_endAt[OF okm]])
    have e: "endsOf (endAt e st q sm) e =
       Some (case st of Some p \<Rightarrow> vertexAt p | None \<Rightarrow> vertexHeap sm (the (va (edgeHeap sm e))),
           vertexAt q)"
      by (rule endAt_ends[OF okm avm stv])
    have en: "ends = Some (case st of Some p \<Rightarrow> vertexAt p | None \<Rightarrow> vertexHeap sm (the (va (edgeHeap sm e))),
           vertexAt q)"
      using stv
      by (auto simp: ends_def connectedOf_def connectedEnds_def None rs plan_def[symmetric]
          Connect sm_def split: option.splits)
    show ?thesis
      by (simp add: c Connect w e en)
  qed
qed

lemma markCells_fields:
  "edges (snd (markCells e z)) = edges z"
  "siteHeap (snd (markCells e z)) = siteHeap z"
  "edgeHeap (snd (markCells e z)) = edgeHeap z"
  "length (cells (snd (markCells e z))) = length (cells z)"
  "vertices (snd (markCells e z)) = vertices z"
  "vertexHeap (snd (markCells e z)) = vertexHeap z"
  by (simp_all add: markCells_snd split_beta setCloseMe_fields split: sum.splits option.splits)

lemma markCells_ok:
  assumes "hasCell z (lSite (edgeHeap z e))" "rSite (edgeHeap z e) = Some rs" "hasCell z rs"
  shows "fst (markCells e z) = Inr ()"
proof -
  from assms(1) obtain i where i: "voronoiId (siteHeap z (lSite (edgeHeap z e))) = Some i" "i < length (cells z)"
    by (rule hasCellE)
  from assms(3) obtain j where j: "voronoiId (siteHeap z rs) = Some j" "j < length (cells z)"
    by (rule hasCellE)
  show ?thesis
    by (simp add: markCells_def i j assms(2) setCloseMe_ok)
qed

lemma clipEdge_fields:
  "edges (snd (clipEdge e bbox s)) = edges s"
  "siteHeap (snd (clipEdge e bbox s)) = siteHeap s"
  "length (cells (snd (clipEdge e bbox s))) = length (cells s)"
  "e' \<noteq> e \<Longrightarrow> edgeHeap (snd (clipEdge e bbox s)) e' = edgeHeap s e'"
  "lSite (edgeHeap (snd (clipEdge e bbox s)) e) = lSite (edgeHeap s e)"
  "rSite (edgeHeap (snd (clipEdge e bbox s)) e) = rSite (edgeHeap s e)"
  by (simp_all add: clipEdge_def Let_def split_beta createVertex_fields markCells_fields
      split: option.splits sum.splits)

lemma worksOn_clipEdge: "poolOk s \<Longrightarrow> worksOn e s (snd (clipEdge e bbox s))"
  by (simp add: worksOn_def clipEdge_fields grows_clipEdge grows_refl)

lemma clipEdge_fst:
  assumes hl: "hasCell s (lSite (edgeHeap s e))" and rs: "rSite (edgeHeap s e) = Some rs"
    and hr: "hasCell s rs"
    and a: "va (edgeHeap s e) = Some a" and b: "vb (edgeHeap s e) = Some b"
  shows "fst (clipEdge e bbox s) = Inr (clipParams bbox (vertexHeap s a) (vertexHeap s b) \<noteq> None)"
proof (cases "clipParams bbox (vertexHeap s a) (vertexHeap s b)")
  case None
  then show ?thesis by (simp add: clipEdge_def a b)
next
  case (Some t)
  obtain t0 t1 where t: "t = (t0, t1)" by (cases t)
  have mk: "fst (markCells e z) = Inr ()"
    if "siteHeap z = siteHeap s" "cells z = cells s" "lSite (edgeHeap z e) = lSite (edgeHeap s e)"
      "rSite (edgeHeap z e) = rSite (edgeHeap s e)" for z
    using that hl hr rs
    by (intro markCells_ok[where rs = rs]) (simp_all add: hasCell_def split: option.splits)
  show ?thesis
    unfolding clipEdge_def
    by (simp add: a b Some t Let_def split_beta createVertex_fields mk)
qed

lemma hasCell_cong:
  "siteHeap z = siteHeap s \<Longrightarrow> length (cells z) = length (cells s) \<Longrightarrow> hasCell z x = hasCell s x"
  by (simp add: hasCell_def split: option.splits)

lemma clipEdge_view:
  assumes ok: "poolOk s"
    and hl: "hasCell s (lSite (edgeHeap s e))" and rs: "rSite (edgeHeap s e) = Some rs"
    and hr: "hasCell s rs"
    and ends: "endsOf s e = Some ab"
  shows "fst (clipEdge e bbox s) = Inr (clippedEnds bbox ab \<noteq> None) \<and>
         (clippedEnds bbox ab \<noteq> None \<longrightarrow>
            endsOf (snd (clipEdge e bbox s)) e = clippedEnds bbox ab)"
proof -
  from ends obtain a b where a: "va (edgeHeap s e) = Some a" and b: "vb (edgeHeap s e) = Some b"
    and ins: "a \<in> set (vertices s)" "b \<in> set (vertices s)"
    and ab: "ab = (vertexHeap s a, vertexHeap s b)"
    by (auto simp: endsOf_def split: option.splits if_splits)
  define s' where "s' = snd (clipEdge e bbox s)"
  have g: "grows s s'"
    unfolding s'_def by (rule grows_clipEdge[OF grows_refl[OF ok]])
  then have keep: "a \<in> set (vertices s')" "b \<in> set (vertices s')"
    "vertexHeap s' a = vertexHeap s a" "vertexHeap s' b = vertexHeap s b"
    using ins by (auto simp: grows_def)
  have f: "fst (clipEdge e bbox s) = Inr (clippedEnds bbox ab \<noteq> None)"
    by (simp add: clipEdge_fst[OF hl rs hr a b] clippedEnds_def ab Let_def split: option.splits)
  have e: "endsOf s' e = clippedEnds bbox ab" if "clippedEnds bbox ab \<noteq> None"
  proof -
    from that obtain t0 t1 where t: "clipParams bbox (vertexHeap s a) (vertexHeap s b) = Some (t0, t1)"
      by (auto simp: clippedEnds_def ab Let_def split: option.splits)
    note m = clipEdge_moves[OF ok a b t, folded s'_def]
    show ?thesis
      using m keep
      by (auto simp: endsOf_def clippedEnds_def ab t Let_def split: if_splits)
  qed
  show ?thesis
    using f e by (simp add: s'_def)
qed

lemma pointLike_view: "endsOf s e = Some ab \<Longrightarrow> pointLike e s = Inr (\<not> farApart ab)"
  by (auto simp: endsOf_def pointLike_def farApart_def split: option.splits if_splits)

lemma edgeToRemove_fst:
  "fst (edgeToRemove e bbox s) =
     (case fst (connectEdge e bbox s) of
        Inl err \<Rightarrow> Inl err
      | Inr c \<Rightarrow>
          if \<not> c then Inr True
          else (case fst (clipEdge e bbox (snd (connectEdge e bbox s))) of
                  Inl err \<Rightarrow> Inl err
                | Inr k \<Rightarrow>
                    if \<not> k then Inr True
                    else pointLike e (snd (clipEdge e bbox (snd (connectEdge e bbox s))))))"
  by (simp add: edgeToRemove_def split_beta split: sum.splits bool.splits)

lemma worksOn_poolOk: "worksOn e s s' \<Longrightarrow> poolOk s'"
  by (simp add: worksOn_def grows_def)

lemma worksOn_hasCell: "worksOn e s s' \<Longrightarrow> hasCell s' x = hasCell s x"
  by (rule hasCell_cong) (simp_all add: worksOn_def)

lemma endsOf_edgeOk:
  assumes "endsOf s e = Some ab" "hasCell s (lSite (edgeHeap s e))"
    "rSite (edgeHeap s e) = Some rs" "hasCell s rs"
  shows "edgeOk s e"
  using assms by (auto simp: endsOf_def edgeOk_def split: option.splits if_splits)

lemma edgeToRemove_view:
  assumes ok: "poolOk s" and eok: "edgeOk s e"
  shows "fst (edgeToRemove e bbox s) = Inr (\<not> survivesView bbox s e) \<and>
         edgeSurvives bbox s e = survivesView bbox s e \<and>
         worksOn e s (snd (edgeToRemove e bbox s)) \<and>
         (survivesView bbox s e \<longrightarrow> edgeOk (snd (edgeToRemove e bbox s)) e)"
proof -
  define s1 where "s1 = snd (connectEdge e bbox s)"
  define s2 where "s2 = snd (clipEdge e bbox s1)"
  from eok obtain rs where rs: "rSite (edgeHeap s e) = Some rs" and hr: "hasCell s rs"
    and hl: "hasCell s (lSite (edgeHeap s e))"
    by (auto simp: edgeOk_def split: option.splits)
  note cv = connectEdge_view[OF ok eok, of bbox, folded s1_def]
  from cv have c1: "fst (connectEdge e bbox s) = Inr (connectedOf bbox s e \<noteq> None)"
    and w1: "worksOn e s s1" by simp_all
  have ok1: "poolOk s1" by (rule worksOn_poolOk[OF w1])
  have w2: "worksOn e s1 s2" unfolding s2_def by (rule worksOn_clipEdge[OF ok1])
  have w12: "worksOn e s s2" by (rule worksOn_trans[OF w1 w2])
  have snd_eq: "snd (edgeToRemove e bbox s) = (if connectedOf bbox s e \<noteq> None then s2 else s1)"
    by (simp add: edgeToRemove_snd c1 s1_def s2_def)
  have w: "worksOn e s (snd (edgeToRemove e bbox s))"
    by (simp add: snd_eq w1 w12)
  show ?thesis
  proof (cases "connectedOf bbox s e")
    case None
    then show ?thesis
      using w by (simp add: edgeToRemove_fst c1 survivesView_def edgeSurvives_def)
  next
    case (Some ab)
    with cv have e1: "endsOf s1 e = Some ab" by simp
    have rs1: "rSite (edgeHeap s1 e) = Some rs" and ls1: "lSite (edgeHeap s1 e) = lSite (edgeHeap s e)"
      using w1 rs by (simp_all add: worksOn_def)
    have hl1: "hasCell s1 (lSite (edgeHeap s1 e))"
      using hl by (simp add: ls1 worksOn_hasCell[OF w1])
    have hr1: "hasCell s1 rs"
      using hr by (simp add: worksOn_hasCell[OF w1])
    note kv = clipEdge_view[OF ok1 hl1 rs1 hr1 e1, of bbox, folded s2_def]
    from kv have c2: "fst (clipEdge e bbox s1) = Inr (clippedEnds bbox ab \<noteq> None)" by simp
    show ?thesis
    proof (cases "clippedEnds bbox ab")
      case None
      then show ?thesis
        using w
        by (simp add: edgeToRemove_fst c1 c2 Some survivesView_def edgeSurvives_def
            s1_def[symmetric])
    next
      case cd: (Some cd)
      with kv have e2: "endsOf s2 e = Some cd" by simp
      have p: "pointLike e s2 = Inr (\<not> farApart cd)"
        by (rule pointLike_view[OF e2])
      have rs2: "rSite (edgeHeap s2 e) = Some rs" and ls2: "lSite (edgeHeap s2 e) = lSite (edgeHeap s e)"
        using w12 rs by (simp_all add: worksOn_def)
      have eok2: "edgeOk s2 e"
        by (rule endsOf_edgeOk[OF e2 _ rs2]) (simp_all add: ls2 worksOn_hasCell[OF w12] hl hr)
      show ?thesis
        using w eok2
        by (simp add: edgeToRemove_fst c1 c2 Some cd p survivesView_def edgeSurvives_def
            s1_def[symmetric] s2_def[symmetric] snd_eq)
    qed
  qed
qed

lemma worksOn_other:
  assumes w: "worksOn e s s'" and ne: "e' \<noteq> e" and eok: "edgeOk s e'"
  shows "edgeOk s' e' \<and> connectedOf bbox s' e' = connectedOf bbox s e'"
proof -
  have h: "edgeHeap s' e' = edgeHeap s e'" "siteHeap s' = siteHeap s"
    using w ne by (simp_all add: worksOn_def)
  have v: "v \<in> set (vertices s') \<and> vertexHeap s' v = vertexHeap s v" if "v \<in> set (vertices s)" for v
    using w that by (auto simp: worksOn_def grows_def)
  have a: "map_option (vertexHeap s') (va (edgeHeap s e')) = map_option (vertexHeap s) (va (edgeHeap s e'))"
    using eok v by (cases "va (edgeHeap s e')") (auto simp: edgeOk_def)
  have b: "map_option (vertexHeap s') (vb (edgeHeap s e')) = map_option (vertexHeap s) (vb (edgeHeap s e'))"
    using eok v by (cases "vb (edgeHeap s e')") (auto simp: edgeOk_def)
  have "edgeOk s' e'"
    using eok v by (auto simp: edgeOk_def h worksOn_hasCell[OF w] split: option.splits)
  then show ?thesis
    by (simp add: connectedOf_def h a b cong: option.case_cong)
qed

lemma survivesView_cong:
  "connectedOf bbox s' e = connectedOf bbox s e \<Longrightarrow> survivesView bbox s' e = survivesView bbox s e"
  by (simp add: survivesView_def)

lemma removeEdgeAt_fields:
  "edges (removeEdgeAt i s) = take i (edges s) @ drop (Suc i) (edges s)"
  "poolOk (removeEdgeAt i s) = poolOk s"
  "e' \<noteq> edges s ! i \<Longrightarrow> edgeOk (removeEdgeAt i s) e' = edgeOk s e'"
  "e' \<noteq> edges s ! i \<Longrightarrow> connectedOf bbox (removeEdgeAt i s) e' = connectedOf bbox s e'"
  by (simp_all add: removeEdgeAt_def Let_def poolOk_def edgeOk_def connectedOf_def hasCell_def
      cong: option.case_cong)

lemma clipEdgesFrom_filter:
  assumes "edgesOk s" and "i \<le> length (edges s)"
  shows "fst (clipEdgesFrom i bbox s) = Inr () \<and>
         edges (snd (clipEdgesFrom i bbox s)) =
           filter (survivesView bbox s) (take i (edges s)) @ drop i (edges s)"
  using assms
proof (induction i arbitrary: s)
  case 0
  then show ?case by simp
next
  case (Suc i)
  define e where "e = edges s ! i"
  define s1 where "s1 = snd (edgeToRemove e bbox s)"
  from Suc.prems have lt: "i < length (edges s)" and ok: "poolOk s"
    and dist: "distinct (edges s)" and all: "\<forall>x\<in>set (edges s). edgeOk s x"
    by (simp_all add: edgesOk_def)
  have ein: "e \<in> set (edges s)" using lt by (simp add: e_def)
  have eok: "edgeOk s e" using all ein by simp
  note v = edgeToRemove_view[OF ok eok, of bbox, folded s1_def]
  from v have f: "fst (edgeToRemove e bbox s) = Inr (\<not> survivesView bbox s e)"
    and w: "worksOn e s s1" by simp_all
  have es1: "edges s1 = edges s" using w by (simp add: worksOn_def)
  have ok1: "poolOk s1" by (rule worksOn_poolOk[OF w])
  have others: "edgeOk s1 x \<and> connectedOf bbox s1 x = connectedOf bbox s x"
    if "x \<in> set (edges s)" "x \<noteq> e" for x
    using worksOn_other[OF w that(2)] all that(1) by simp
  have before: "x \<noteq> e" if "x \<in> set (take i (edges s))" for x
  proof
    assume "x = e"
    with that have "edges s ! i \<in> set (take i (edges s))" by (simp add: e_def)
    then obtain k where "k < i" "edges s ! k = edges s ! i"
      by (auto simp: in_set_conv_nth)
    with dist lt show False
      by (simp add: nth_eq_iff_index_eq)
  qed
  have parts: "take (Suc i) (edges s) = take i (edges s) @ [e]"
    "drop i (edges s) = e # drop (Suc i) (edges s)"
    using lt by (simp_all add: e_def take_Suc_conv_app_nth Cons_nth_drop_Suc)
  have unfold: "clipEdgesFrom (Suc i) bbox s =
      (if survivesView bbox s e then clipEdgesFrom i bbox s1
       else clipEdgesFrom i bbox (removeEdgeAt i s1))"
    using f lt
    by (simp add: e_def[symmetric] s1_def[symmetric] split_beta split: sum.splits bool.splits)
  show ?case
  proof (cases "survivesView bbox s e")
    case True
    with v have eok1: "edgeOk s1 e" by simp
    have "edgesOk s1"
      using ok1 dist others eok1 by (auto simp: edgesOk_def es1)
    moreover have "i \<le> length (edges s1)" using lt by (simp add: es1)
    ultimately have IH: "fst (clipEdgesFrom i bbox s1) = Inr () \<and>
         edges (snd (clipEdgesFrom i bbox s1)) =
           filter (survivesView bbox s1) (take i (edges s1)) @ drop i (edges s1)"
      by (rule Suc.IH)
    have "filter (survivesView bbox s1) (take i (edges s)) = filter (survivesView bbox s) (take i (edges s))"
      by (rule filter_cong[OF refl])
         (use others before in \<open>auto intro!: survivesView_cong dest: in_set_takeD\<close>)
    with IH True show ?thesis
      by (simp add: unfold es1 parts del: clipEdgesFrom.simps)
  next
    case False
    define s2 where "s2 = removeEdgeAt i s1"
    have e1: "edges s1 ! i = e" by (simp add: es1 e_def)
    have es2: "edges s2 = take i (edges s) @ drop (Suc i) (edges s)"
      by (simp add: s2_def removeEdgeAt_fields es1)
    have notin: "e \<notin> set (edges s2)"
    proof -
      have "distinct (take i (edges s) @ e # drop (Suc i) (edges s))"
        using dist lt by (simp add: e_def id_take_nth_drop[symmetric])
      then show ?thesis by (auto simp: es2)
    qed
    have sub: "set (edges s2) \<subseteq> set (edges s)"
      by (auto simp: es2 dest: in_set_takeD in_set_dropD)
    have others2: "edgeOk s2 x \<and> connectedOf bbox s2 x = connectedOf bbox s x"
      if "x \<in> set (edges s2)" for x
    proof -
      from that notin have ne: "x \<noteq> e" by auto
      from that sub have "x \<in> set (edges s)" by auto
      with others ne show ?thesis
        by (simp add: s2_def removeEdgeAt_fields e1)
    qed
    have d2: "distinct (edges s2)"
      using dist by (simp add: es2) (metis distinct_take distinct_drop set_take_disj_set_drop_if_distinct
          le_SucI order_refl inf_commute)
    have "edgesOk s2"
      using ok1 others2 d2 by (simp add: edgesOk_def s2_def removeEdgeAt_fields)
    moreover have "i \<le> length (edges s2)" using lt by (simp add: es2)
    ultimately have IH: "fst (clipEdgesFrom i bbox s2) = Inr () \<and>
         edges (snd (clipEdgesFrom i bbox s2)) =
           filter (survivesView bbox s2) (take i (edges s2)) @ drop i (edges s2)"
      by (rule Suc.IH)
    have t2: "take i (edges s2) = take i (edges s)" "drop i (edges s2) = drop (Suc i) (edges s)"
      using lt by (simp_all add: es2)
    have "filter (survivesView bbox s2) (take i (edges s)) = filter (survivesView bbox s) (take i (edges s))"
    proof (rule filter_cong[OF refl])
      fix x assume x: "x \<in> set (take i (edges s))"
      then have "x \<in> set (edges s2)" by (simp add: es2)
      from others2[OF this] show "survivesView bbox s2 x = survivesView bbox s x"
        by (intro survivesView_cong) simp
    qed
    with IH False show ?thesis
      by (simp add: unfold s2_def[symmetric] t2 parts del: clipEdgesFrom.simps)
  qed
qed

text \<open>
  The distance of the end points is tested as the source computes it. In
  \<open>roundingExample\<close> the difference \<open>1e-9 - 3 * 2^-85\<close> rounds to \<open>1e-9\<close>, which
  is not below \<open>1e-9\<close>, and the edge stays.
\<close>

lemma clipEdges_rounds:
  "fst (clipEdges unitBox roundingExample) = Inr () \<and>
   edges (snd (clipEdges unitBox roundingExample)) = [0]"
proof -
  have fields: "edges roundingExample = [0]" "vertices roundingExample = [0, 1]"
    "vertexJunkyard roundingExample = []" "vertexNext roundingExample = 2"
    by (simp_all add: roundingExample_def newVoronoi_def)
  have pool: "poolOk roundingExample"
    by (simp add: poolOk_def fields)
  have eo: "edgeOk roundingExample 0"
    by (simp add: edgeOk_def hasCell_def roundingExample_def newVoronoi_def sitesWithIds_def)
  have ok: "edgesOk roundingExample"
    using pool eo by (simp add: edgesOk_def fields)
  have c: "connectedOf unitBox roundingExample 0 =
      Some (\<lparr>vx = dbl 1 (10 ^ 9), vy = dbl 1 2\<rparr>, \<lparr>vx = Finite False 3 (- 85), vy = dbl 1 2\<rparr>)"
    by (simp add: connectedOf_def connectedEnds_def roundingExample_def)
  have k: "clippedEnds unitBox
      (\<lparr>vx = dbl 1 (10 ^ 9), vy = dbl 1 2\<rparr>, \<lparr>vx = Finite False 3 (- 85), vy = dbl 1 2\<rparr>)
      = Some (\<lparr>vx = dbl 1 (10 ^ 9), vy = dbl 1 2\<rparr>, \<lparr>vx = Finite False 3 (- 85), vy = dbl 1 2\<rparr>)"
    by (simp add: clippedEnds_def clipParams_def clipLow_def clipHigh_def unitBox_def number_eval)
  have f: "farApart (\<lparr>vx = dbl 1 (10 ^ 9), vy = dbl 1 2\<rparr>, \<lparr>vx = Finite False 3 (- 85), vy = dbl 1 2\<rparr>)"
    by (simp add: farApart_def number_eval)
  have "survivesView unitBox roundingExample 0"
    using f c k by (simp add: survivesView_def)
  with clipEdgesFrom_filter[OF ok le_refl, of unitBox] show ?thesis
    by (simp add: clipEdges_def fields)
qed




end
